theory Spec2Isabelle
  imports Complex_Main
begin

section \<open>The Reddit persona pipeline (\<^verbatim>\<open>reddit_persona.py\<close>)\<close>

text \<open>
  The module is a linear pipeline: \<^verbatim>\<open>RedditScraper.extract_username_from_url\<close>,
  \<^verbatim>\<open>RedditScraper.scrape_user_data\<close>, \<^verbatim>\<open>PersonaGenerator.generate_persona\<close> and
  \<^verbatim>\<open>PersonaFileManager.save_persona\<close>, driven by \<^verbatim>\<open>streamlit_app\<close> or by
  \<^verbatim>\<open>command_line_interface\<close>. Python \<^verbatim>\<open>str\<close> is modelled by \<open>string\<close>, one \<open>char\<close> per
  character, so \<open>length\<close> and \<open>take\<close> are \<^verbatim>\<open>len\<close> and slicing. Exceptions are values
  of the type \<open>error\<close>; a function that may raise returns \<open>error + 'a\<close>.
\<close>

subsection \<open>Exceptions\<close>

datatype error =
    ValueError string
  | Exception string
  | LibraryError string
  | OSError string

text \<open>\<^verbatim>\<open>str(e)\<close>: the message an exception was built with.\<close>

fun str :: "error \<Rightarrow> string" where
  "str (ValueError m) = m"
| "str (Exception m) = m"
| "str (LibraryError m) = m"
| "str (OSError m) = m"

subsection \<open>The three URL patterns and \<^verbatim>\<open>re.search\<close>\<close>

text \<open>
  Every pattern of \<^verbatim>\<open>extract_username_from_url\<close> is a literal text (the escaped dot of
  \<^verbatim>\<open>reddit\.com\<close> is a literal dot) followed by the single group \<^verbatim>\<open>([^/]+)\<close>. A
  pattern is therefore represented by its literal.
\<close>

definition patterns :: "string list" where
  "patterns = [''reddit.com/u/'', ''reddit.com/user/'', ''reddit.com/users/'']"

definition startswith :: "string \<Rightarrow> string \<Rightarrow> bool" where
  "startswith s lit = (take (length lit) s = lit)"

text \<open>
  An anchored match of \<^verbatim>\<open>lit([^/]+)\<close> at the head of \<open>s\<close>: the literal, then the greedy
  group, which takes every character up to the next \<^verbatim>\<open>/\<close> (or the end) and needs at
  least one. The result is group 1.
\<close>

definition match_here :: "string \<Rightarrow> string \<Rightarrow> string option" where
  "match_here lit s =
     (if startswith s lit
      then (let g = takeWhile (\<lambda>c. c \<noteq> CHR ''/'') (drop (length lit) s)
            in if g = [] then None else Some g)
      else None)"

text \<open>\<^verbatim>\<open>re.search\<close>: the anchored match is tried at every offset from the left.\<close>

fun re_search :: "string \<Rightarrow> string \<Rightarrow> string option" where
  "re_search lit [] = match_here lit []"
| "re_search lit (c # cs) =
     (case match_here lit (c # cs) of
        Some g \<Rightarrow> Some g
      | None \<Rightarrow> re_search lit cs)"

text \<open>The \<^verbatim>\<open>for pattern in patterns\<close> loop with its early \<^verbatim>\<open>return match.group(1)\<close>.\<close>

fun first_match :: "string list \<Rightarrow> string \<Rightarrow> string option" where
  "first_match [] url = None"
| "first_match (p # ps) url =
     (case re_search p url of
        Some g \<Rightarrow> Some g
      | None \<Rightarrow> first_match ps url)"

definition extract_username_from_url :: "string \<Rightarrow> error + string" where
  "extract_username_from_url url =
     (case first_match patterns url of
        Some g \<Rightarrow> Inr g
      | None \<Rightarrow> Inl (ValueError (''Invalid Reddit URL format: '' @ url)))"


subsection \<open>Content items and the collection result\<close>

text \<open>
  What the content API yields for one submission and one comment: the attributes that
  \<^verbatim>\<open>scrape_user_data\<close> reads. \<^verbatim>\<open>created_utc\<close> is a float in the source; no computation
  is done on it, and it is kept as a number of seconds.
\<close>

record submission =
  submission_id :: string
  submission_title :: string
  submission_selftext :: string
  submission_subreddit :: string
  submission_score :: int
  submission_created_utc :: int
  submission_permalink :: string

record api_comment =
  api_comment_id :: string
  api_comment_body :: string
  api_comment_subreddit :: string
  api_comment_score :: int
  api_comment_created_utc :: int
  api_comment_permalink :: string

text \<open>The dictionaries appended to \<^verbatim>\<open>posts\<close> and \<^verbatim>\<open>comments\<close>.\<close>

record post =
  post_id :: string
  title :: string
  selftext :: string
  post_subreddit :: string
  post_score :: int
  post_created_utc :: int
  post_url :: string

record comment =
  comment_id :: string
  body :: string
  comment_subreddit :: string
  comment_score :: int
  comment_created_utc :: int
  comment_url :: string

text \<open>The dictionary returned by \<^verbatim>\<open>scrape_user_data\<close>.\<close>

record user_data =
  username :: string
  posts :: "post list"
  comments :: "comment list"
  total_posts :: nat
  total_comments :: nat

text \<open>
  A listing of the content API is iterated lazily: it yields some items and then either
  ends or raises. \<open>Listing xs None\<close> ends after \<open>xs\<close>; \<open>Listing xs (Some m)\<close> raises an
  exception with message \<open>m\<close> after having yielded \<open>xs\<close>.
\<close>

datatype 'a listing = Listing "'a list" "string option"

text \<open>
  The outcome of \<^verbatim>\<open>hasattr(user, 'id')\<close> and of the \<^verbatim>\<open>user.id\<close> that follows it:
  the attribute is there; it is reported missing and \<^verbatim>\<open>user.id\<close> then succeeds (\<open>True\<close>)
  or raises (\<open>False\<close>); or the lookup raises something that \<^verbatim>\<open>hasattr\<close> does not catch.
\<close>

datatype lookup = HasId | NoIdAttr bool | LookupRaises string

subsection \<open>Events\<close>

text \<open>
  Everything a run does to the outside is recorded, in order, as a list of events: the
  calls to the content API and to the LLM endpoint, the lines printed, the error boxes of
  the dashboard, and the file-system operations.
\<close>

text \<open>
  The user message of \<^verbatim>\<open>generate_persona\<close> is a fixed template around four values: the
  username, the two totals and the excerpt. The template text has characters outside
  \<open>char\<close>, so the message is represented by the four values, \<open>PersonaPrompt\<close>. A request
  without \<^verbatim>\<open>temperature\<close> has \<open>None\<close> there.
\<close>

datatype message_content =
    Text string
  | PersonaPrompt string nat nat string

record chat_request =
  req_model :: string
  req_messages :: "(string \<times> message_content) list"
  req_max_tokens :: nat
  req_temperature :: "rat option"

datatype event =
    Print string
  | StError string
  | StSuccess string
  | StInfo string
  | RedditClient "string option" "string option" string
  | ApiUserLookup string
  | ApiFetchPosts string int
  | ApiFetchComments string int
  | GroqClient "string option"
  | ChatCompletion chat_request
  | MakeDirs string
  | OpenWrite string
  | Write string string

subsection \<open>The content collector\<close>

definition make_post :: "submission \<Rightarrow> post" where
  "make_post s =
     \<lparr>post_id = submission_id s,
      title = submission_title s,
      selftext = submission_selftext s,
      post_subreddit = submission_subreddit s,
      post_score = submission_score s,
      post_created_utc = submission_created_utc s,
      post_url = ''https://reddit.com'' @ submission_permalink s\<rparr>"

definition make_comment :: "api_comment \<Rightarrow> comment" where
  "make_comment c =
     \<lparr>comment_id = api_comment_id c,
      body = api_comment_body c,
      comment_subreddit = api_comment_subreddit c,
      comment_score = api_comment_score c,
      comment_created_utc = api_comment_created_utc c,
      comment_url = ''https://reddit.com'' @ api_comment_permalink c\<rparr>"

text \<open>
  \<^verbatim>\<open>for x in listing: acc.append(mk(x))\<close> inside \<^verbatim>\<open>try\<close>: every item yielded before
  a failure has been appended, and the handler prints the failure and goes on.
\<close>

fun collect :: "('a \<Rightarrow> 'b) \<Rightarrow> string \<Rightarrow> 'a listing \<Rightarrow> 'b list \<times> event list" where
  "collect mk what (Listing xs failure) =
     (fold (\<lambda>x acc. acc @ [mk x]) xs [],
      (case failure of
         None \<Rightarrow> []
       | Some m \<Rightarrow> [Print (''Error scraping '' @ what @ '': '' @ m)]))"

text \<open>The content API as \<^verbatim>\<open>scrape_user_data\<close> uses it, for one run.\<close>

record content_api =
  redditor_id :: "string \<Rightarrow> lookup"
  submissions_new :: "string \<Rightarrow> int \<Rightarrow> submission listing"
  comments_new :: "string \<Rightarrow> int \<Rightarrow> api_comment listing"

definition scrape_user_data ::
  "content_api \<Rightarrow> string \<Rightarrow> int \<Rightarrow> (error + user_data) \<times> event list" where
  "scrape_user_data api name limit =
     (case redditor_id api name of
        LookupRaises m \<Rightarrow>
          (Inl (Exception (''Error scraping user data: '' @ m)), [ApiUserLookup name])
      | NoIdAttr False \<Rightarrow>
          (Inl (Exception (''Error scraping user data: '' @
                  str (ValueError (''User '' @ [CHR 0x27] @ name @ [CHR 0x27] @
                                   '' not found or suspended'')))),
           [ApiUserLookup name])
      | _ \<Rightarrow>
          (let (ps, ev_posts) = collect make_post ''posts'' (submissions_new api name limit);
               (cs, ev_comments) = collect make_comment ''comments'' (comments_new api name limit)
           in (Inr \<lparr>username = name, posts = ps, comments = cs,
                     total_posts = length ps, total_comments = length cs\<rparr>,
               [ApiUserLookup name, ApiFetchPosts name limit] @ ev_posts @
               [ApiFetchComments name limit] @ ev_comments)))"


subsection \<open>The profile synthesizer\<close>

text \<open>The two loops of \<^verbatim>\<open>_prepare_content\<close>; a string is true when it is not empty.\<close>

definition add_post :: "post \<Rightarrow> string list \<Rightarrow> string list" where
  "add_post p content =
     (if title p \<noteq> [] \<and> selftext p \<noteq> []
      then content @ [''POST ['' @ post_id p @ '']: '' @ title p @ '' - '' @ take 500 (selftext p)]
      else if title p \<noteq> []
      then content @ [''POST ['' @ post_id p @ '']: '' @ title p]
      else content)"

definition add_comment :: "comment \<Rightarrow> string list \<Rightarrow> string list" where
  "add_comment c content =
     (if body c \<noteq> [] \<and> length (body c) > 10
      then content @ [''COMMENT ['' @ comment_id c @ '']: '' @ take 500 (body c)]
      else content)"

text \<open>The list \<^verbatim>\<open>content\<close> when \<^verbatim>\<open>_prepare_content\<close> reaches its \<^verbatim>\<open>return\<close>.\<close>

definition content_entries :: "user_data \<Rightarrow> string list" where
  "content_entries ud =
     fold add_comment (take 50 (comments ud)) (fold add_post (take 50 (posts ud)) [])"

text \<open>\<^verbatim>\<open>sep.join(xs)\<close>.\<close>

fun join :: "string \<Rightarrow> string list \<Rightarrow> string" where
  "join sep [] = []"
| "join sep [x] = x"
| "join sep (x # y # ys) = x @ sep @ join sep (y # ys)"

definition prepare_content :: "user_data \<Rightarrow> string" where
  "prepare_content ud = join [CHR 0x0A, CHR 0x0A] (content_entries ud)"

text \<open>
  The LLM endpoint for one run: constructing the client with a key either succeeds
  (\<open>None\<close>) or raises, and a chat completion returns the text of its first choice or
  raises.
\<close>

record llm_api =
  Groq :: "string option \<Rightarrow> string option"
  chat_completions_create :: "chat_request \<Rightarrow> string + string"

text \<open>A \<^verbatim>\<open>PersonaGenerator\<close> object: the key its client was built with, and \<^verbatim>\<open>self.model\<close>.\<close>

record persona_generator =
  client_key :: "string option"
  generator_model :: string

definition PersonaGenerator :: "llm_api \<Rightarrow> string option \<Rightarrow> (error + persona_generator) \<times> event list" where
  "PersonaGenerator llm api_key =
     (case Groq llm api_key of
        Some m \<Rightarrow> (Inl (LibraryError m), [GroqClient api_key])
      | None \<Rightarrow> (Inr \<lparr>client_key = api_key, generator_model = ''llama3-70b-8192''\<rparr>,
                 [GroqClient api_key]))"

definition system_message :: string where
  "system_message =
     ''You are an expert digital behavioral analyst specializing in creating comprehensive user personas from social media data. You analyze communication patterns, interests, and behavioral indicators to build accurate psychological profiles.''"

definition persona_request :: "persona_generator \<Rightarrow> user_data \<Rightarrow> chat_request" where
  "persona_request g ud =
     \<lparr>req_model = generator_model g,
      req_messages =
        [(''system'', Text system_message),
         (''user'', PersonaPrompt (username ud) (total_posts ud) (total_comments ud)
                     (prepare_content ud))],
      req_max_tokens = 4000,
      req_temperature = Some (3 / 10)\<rparr>"

definition generate_persona ::
  "llm_api \<Rightarrow> persona_generator \<Rightarrow> user_data \<Rightarrow> (error + string) \<times> event list" where
  "generate_persona llm g ud =
     (case chat_completions_create llm (persona_request g ud) of
        Inl m \<Rightarrow> (Inl (Exception (''Error generating persona: '' @ m)),
                  [ChatCompletion (persona_request g ud)])
      | Inr text \<Rightarrow> (Inr text, [ChatCompletion (persona_request g ud)]))"

text \<open>The connection test that both shells make before \<^verbatim>\<open>generate_persona\<close>.\<close>

definition test_request :: "string \<Rightarrow> chat_request" where
  "test_request m =
     \<lparr>req_model = m, req_messages = [(''user'', Text ''test'')],
      req_max_tokens = 1, req_temperature = None\<rparr>"


subsection \<open>The report writer\<close>

text \<open>
  The file system as the report writer sees it: a map from the text of a path to what is
  there. A relative path is relative to the working directory, which is the empty path
  and is a directory. Paths are keys as written (no normalisation). \<open>Denied m\<close> stands
  for a path at which nothing can be created or opened for writing: the operating
  system answers with the error \<open>m\<close> (permission, read-only medium, quota).
\<close>

datatype node = Dir | File string | Denied string

type_synonym filesystem = "string \<rightharpoonup> node"

definition os_path_exists :: "filesystem \<Rightarrow> string \<Rightarrow> bool" where
  "os_path_exists fs p =
     (case fs p of
        None \<Rightarrow> False
      | Some (Denied m) \<Rightarrow> False
      | Some _ \<Rightarrow> True)"

text \<open>\<^verbatim>\<open>os.makedirs(p)\<close> for a path of one component (the program passes \<^verbatim>\<open>output\<close>).\<close>

definition os_makedirs :: "filesystem \<Rightarrow> string \<Rightarrow> error + filesystem" where
  "os_makedirs fs p =
     (case fs p of
        None \<Rightarrow> Inr (fs(p \<mapsto> Dir))
      | Some (Denied m) \<Rightarrow> Inl (OSError m)
      | Some _ \<Rightarrow> Inl (OSError ''File exists''))"

text \<open>\<^verbatim>\<open>posixpath.join(a, b)\<close>: an absolute second component discards the first.\<close>

definition os_path_join :: "string \<Rightarrow> string \<Rightarrow> string" where
  "os_path_join a b =
     (if startswith b ''/'' then b
      else if a = [] \<or> last a = CHR ''/'' then a @ b
      else a @ ''/'' @ b)"

text \<open>\<^verbatim>\<open>posixpath.dirname(p)\<close>: the text up to the last slash, without trailing slashes
  unless it consists of slashes only.\<close>

definition dirname :: "string \<Rightarrow> string" where
  "dirname p =
     (let head = rev (dropWhile (\<lambda>c. c \<noteq> CHR ''/'') (rev p))
      in if head \<noteq> [] \<and> (\<exists>c \<in> set head. c \<noteq> CHR ''/'')
         then rev (dropWhile (\<lambda>c. c = CHR ''/'') (rev head))
         else head)"

definition is_dir :: "filesystem \<Rightarrow> string \<Rightarrow> bool" where
  "is_dir fs d = (d = [] \<or> fs d = Some Dir)"

text \<open>
  The limits of the operating system on a path: a component of more than \<open>NAME_MAX\<close>
  bytes or a path of \<open>PATH_MAX\<close> bytes or more is refused. A path is passed in UTF-8: a
  character below 128 is one byte, another one two.
\<close>

definition NAME_MAX :: nat where
  "NAME_MAX = 255"

definition PATH_MAX :: nat where
  "PATH_MAX = 4096"

definition utf8_length :: "string \<Rightarrow> nat" where
  "utf8_length s = sum_list (map (\<lambda>c. if of_char c < (128::nat) then 1 else 2) s)"

text \<open>The components of a path: the texts between its slashes.\<close>

fun components :: "string \<Rightarrow> string list" where
  "components [] = [[]]"
| "components (c # cs) =
     (if c = CHR ''/'' then [] # components cs
      else (case components cs of
              [] \<Rightarrow> [[c]]
            | x # xs \<Rightarrow> (c # x) # xs))"

text \<open>
  \<^verbatim>\<open>open(p, 'w')\<close>: Python refuses a path with a NUL character; the operating system
  refuses an empty path, a path or component that is too long, a parent that is not a
  directory, a directory, and a path it denies. Otherwise the file exists afterwards and
  is empty.
\<close>

definition open_w :: "filesystem \<Rightarrow> string \<Rightarrow> error + filesystem" where
  "open_w fs p =
     (if CHR 0x00 \<in> set p then Inl (ValueError ''embedded null byte'')
      else if p = [] then Inl (OSError ''No such file or directory'')
      else if PATH_MAX \<le> utf8_length p \<or> (\<exists>c \<in> set (components p). NAME_MAX < utf8_length c)
      then Inl (OSError ''File name too long'')
      else if \<not> is_dir fs (dirname p)
      then (case fs (dirname p) of
              Some (File old) \<Rightarrow> Inl (OSError ''Not a directory'')
            | _ \<Rightarrow> Inl (OSError ''No such file or directory''))
      else (case fs p of
              Some Dir \<Rightarrow> Inl (OSError ''Is a directory'')
            | Some (Denied m) \<Rightarrow> Inl (OSError m)
            | _ \<Rightarrow> Inr (fs(p \<mapsto> File []))))"

text \<open>\<^verbatim>\<open>f.write(text)\<close> on a file opened by \<open>open_w\<close>: the text goes at the end.\<close>

definition file_write :: "filesystem \<Rightarrow> string \<Rightarrow> string \<Rightarrow> filesystem" where
  "file_write fs p text =
     (case fs p of
        Some (File old) \<Rightarrow> fs(p \<mapsto> File (old @ text))
      | _ \<Rightarrow> fs)"

text \<open>\<^verbatim>\<open>datetime.now()\<close> and \<^verbatim>\<open>strftime('%Y-%m-%d %H:%M:%S')\<close>; \<^verbatim>\<open>%Y\<close> is the year in
  decimal, the other fields are two digits.\<close>

record datetime =
  year :: nat
  month :: nat
  day :: nat
  hour :: nat
  minute :: nat
  second :: nat

definition digit :: "nat \<Rightarrow> char" where
  "digit n = ''0123456789'' ! (n mod 10)"

fun decimal :: "nat \<Rightarrow> string" where
  "decimal n = (if n < 10 then [digit n] else decimal (n div 10) @ [digit n])"

declare decimal.simps [simp del]

definition two_digits :: "nat \<Rightarrow> string" where
  "two_digits n = (if n < 10 then ''0'' @ decimal n else decimal n)"

definition strftime :: "datetime \<Rightarrow> string" where
  "strftime dt =
     decimal (year dt) @ ''-'' @ two_digits (month dt) @ ''-'' @ two_digits (day dt) @ '' '' @
     two_digits (hour dt) @ '':'' @ two_digits (minute dt) @ '':'' @ two_digits (second dt)"

definition ensure_output_directory ::
  "filesystem \<Rightarrow> (error + string) \<times> filesystem \<times> event list" where
  "ensure_output_directory fs =
     (if \<not> os_path_exists fs ''output''
      then (case os_makedirs fs ''output'' of
              Inl e \<Rightarrow> (Inl e, fs, [MakeDirs ''output''])
            | Inr fs1 \<Rightarrow> (Inr ''output'', fs1, [MakeDirs ''output'']))
      else (Inr ''output'', fs, []))"

definition save_persona ::
  "datetime \<Rightarrow> filesystem \<Rightarrow> string \<Rightarrow> string \<Rightarrow> (error + string) \<times> filesystem \<times> event list" where
  "save_persona clock fs persona name =
     (case ensure_output_directory fs of
        (Inl e, fs1, ev1) \<Rightarrow> (Inl e, fs1, ev1)
      | (Inr output_dir, fs1, ev1) \<Rightarrow>
          (let filename = name @ ''_digital_profile.txt'';
               filepath = os_path_join output_dir filename;
               stamp = [CHR 0x0A, CHR 0x0A] @ ''Profile Generated: '' @ strftime clock
           in case open_w fs1 filepath of
                Inl e \<Rightarrow> (Inl e, fs1, ev1 @ [OpenWrite filepath])
              | Inr fs2 \<Rightarrow>
                  (Inr filepath,
                   file_write (file_write fs2 filepath persona) filepath stamp,
                   ev1 @ [OpenWrite filepath, Write filepath persona, Write filepath stamp])))"


subsection \<open>The two shells\<close>

text \<open>
  The module-level keys (\<open>None\<close> when \<^verbatim>\<open>get_api_key\<close> found nothing), the two client
  libraries and the clock. \<^verbatim>\<open>praw.Reddit(...)\<close> either raises or gives the content API.
\<close>

record world =
  REDDIT_CLIENT_ID :: "string option"
  REDDIT_CLIENT_SECRET :: "string option"
  GROQ_API_KEY :: "string option"
  praw_Reddit :: "string option \<Rightarrow> string option \<Rightarrow> string \<Rightarrow> string + content_api"
  llm :: llm_api
  now :: datetime

text \<open>Python truth of a key: \<^verbatim>\<open>None\<close> and the empty string are false.\<close>

fun truthy :: "string option \<Rightarrow> bool" where
  "truthy None = False"
| "truthy (Some k) = (k \<noteq> [])"

text \<open>
  A statement inside \<^verbatim>\<open>try\<close>: from a file system it gives a value or the exception
  raised, the file system afterwards, and the events it caused. \<open>and_then\<close> is the
  sequencing of statements: an exception skips what follows.
\<close>

type_synonym 'a step = "filesystem \<Rightarrow> (error + 'a) \<times> filesystem \<times> event list"

definition and_then :: "'a step \<Rightarrow> ('a \<Rightarrow> 'b step) \<Rightarrow> 'b step" where
  "and_then m f fs =
     (case m fs of
        (Inl e, fs1, ev1) \<Rightarrow> (Inl e, fs1, ev1)
      | (Inr x, fs1, ev1) \<Rightarrow> (case f x fs1 of (r, fs2, ev2) \<Rightarrow> (r, fs2, ev1 @ ev2)))"

definition emit :: "event list \<Rightarrow> unit step" where
  "emit evs fs = (Inr (), fs, evs)"

definition call :: "(error + 'a) \<times> event list \<Rightarrow> 'a step" where
  "call r fs = (fst r, fs, snd r)"

definition RedditScraper ::
  "world \<Rightarrow> string option \<Rightarrow> string option \<Rightarrow> string \<Rightarrow> (error + content_api) \<times> event list" where
  "RedditScraper w client_id client_secret user_agent =
     (case praw_Reddit w client_id client_secret user_agent of
        Inl m \<Rightarrow> (Inl (LibraryError m), [RedditClient client_id client_secret user_agent])
      | Inr api \<Rightarrow> (Inr api, [RedditClient client_id client_secret user_agent]))"

definition chat_test :: "llm_api \<Rightarrow> string \<Rightarrow> (error + string) \<times> event list" where
  "chat_test api m =
     (case chat_completions_create api (test_request m) of
        Inl msg \<Rightarrow> (Inl (LibraryError msg), [ChatCompletion (test_request m)])
      | Inr text \<Rightarrow> (Inr text, [ChatCompletion (test_request m)]))"

text \<open>\<^verbatim>\<open>str.lower\<close> on the letters A to Z, and \<^verbatim>\<open>needle in text\<close>.\<close>

definition lower_char :: "char \<Rightarrow> char" where
  "lower_char c =
     (case map_of (zip ''ABCDEFGHIJKLMNOPQRSTUVWXYZ'' ''abcdefghijklmnopqrstuvwxyz'') c of
        Some l \<Rightarrow> l
      | None \<Rightarrow> c)"

definition lower :: "string \<Rightarrow> string" where
  "lower s = map lower_char s"

fun contains :: "string \<Rightarrow> string \<Rightarrow> bool" where
  "contains needle [] = (needle = [])"
| "contains needle (c # cs) = (startswith (c # cs) needle \<or> contains needle cs)"

text \<open>
  The command line after \<^verbatim>\<open>parse_args\<close>. The printed lines are given without their
  leading pictographs.
\<close>

record args =
  arg_url :: string
  arg_depth :: int
  arg_model :: string
  arg_output :: string

definition cli_try :: "world \<Rightarrow> args \<Rightarrow> unit step" where
  "cli_try w a =
     and_then (emit [Print ''Digital Persona Analyzer v2.0'', Print (replicate 40 (CHR ''='')),
                     Print ''Initializing Reddit data collector...'']) (\<lambda>_.
     and_then (call (RedditScraper w (REDDIT_CLIENT_ID w) (REDDIT_CLIENT_SECRET w)
                       ''DigitalPersonaAnalyzer/2.0'')) (\<lambda>scraper.
     and_then (emit [Print ''Extracting user identity...'']) (\<lambda>_.
     and_then (call (extract_username_from_url (arg_url a), [])) (\<lambda>name.
     and_then (emit [Print (''Target identified: u/'' @ name),
                     Print ''Collecting digital footprint...'']) (\<lambda>_.
     and_then (call (scrape_user_data scraper name (arg_depth a))) (\<lambda>ud.
     and_then (emit [Print (''Collected '' @ decimal (total_posts ud) @ '' posts and '' @
                            decimal (total_comments ud) @ '' comments''),
                     Print (''Performing AI analysis with '' @ arg_model a @ ''...'')]) (\<lambda>_.
     and_then (call (PersonaGenerator (llm w) (GROQ_API_KEY w))) (\<lambda>generator.
     and_then (call (chat_test (llm w) (arg_model a))) (\<lambda>test_response.
     and_then (call (generate_persona (llm w)
                       (generator\<lparr>generator_model := arg_model a\<rparr>) ud)) (\<lambda>persona.
     and_then (emit [Print ''Generating profile report...'']) (\<lambda>_.
     and_then (\<lambda>fs. save_persona (now w) fs persona name) (\<lambda>filepath.
     emit [Print ''Digital persona analysis complete!'',
           Print (''Report saved: '' @ filepath),
           Print ([CHR 0x0A] @ replicate 60 (CHR ''='')),
           Print ''DIGITAL PERSONA PREVIEW'',
           Print (replicate 60 (CHR ''='')),
           Print (if length persona > 600 then take 600 persona @ ''...'' else persona),
           Print ([CHR 0x0A] @ replicate 60 (CHR ''='')),
           Print (''Analysis Stats: '' @ decimal (total_posts ud) @ '' posts, '' @
                  decimal (total_comments ud) @ '' comments''),
           Print (''AI Model: '' @ arg_model a)]))))))))))))"

definition cli_hints :: "string \<Rightarrow> event list" where
  "cli_hints msg =
     (if contains ''api_key'' (lower msg)
      then [Print ''Invalid Groq API credentials. Please verify your configuration.'']
      else if contains ''rate_limit'' (lower msg)
      then [Print ''Rate limit exceeded. Please wait before retrying.'']
      else if contains ''not found'' (lower msg)
      then [Print ''Reddit user not found or profile is private/suspended.'']
      else [])"

text \<open>The result is the exit status: 1 from \<^verbatim>\<open>sys.exit(1)\<close> in the handler, 0 otherwise.\<close>

definition command_line_interface :: "world \<Rightarrow> args \<Rightarrow> filesystem \<Rightarrow> nat \<times> filesystem \<times> event list" where
  "command_line_interface w a fs =
     (case cli_try w a fs of
        (Inr _, fs1, ev) \<Rightarrow> (0, fs1, ev)
      | (Inl e, fs1, ev) \<Rightarrow>
          (1, fs1, ev @ [Print (''Analysis failed: '' @ str e)] @ cli_hints (str e)))"

text \<open>
  The dashboard's widgets: the URL field, the depth slider, the model selector and the
  button. Calls that only render (markdown, progress bar, metrics, download buttons) are
  left out; the message boxes are events, without their leading pictographs.
\<close>

record widgets =
  reddit_url :: string
  scrape_limit :: int
  model_choice :: string
  button :: bool

definition streamlit_try :: "world \<Rightarrow> widgets \<Rightarrow> unit step" where
  "streamlit_try w ui =
     and_then (call (RedditScraper w (REDDIT_CLIENT_ID w) (REDDIT_CLIENT_SECRET w)
                       ''DigitalPersonaAnalyzer/2.0'')) (\<lambda>scraper.
     and_then (call (extract_username_from_url (reddit_url ui), [])) (\<lambda>name.
     and_then (call (scrape_user_data scraper name (scrape_limit ui))) (\<lambda>ud.
     and_then (call (PersonaGenerator (llm w) (GROQ_API_KEY w))) (\<lambda>generator.
     and_then (call (chat_test (llm w) (model_choice ui))) (\<lambda>test_response.
     and_then (call (generate_persona (llm w)
                       (generator\<lparr>generator_model := model_choice ui\<rparr>) ud)) (\<lambda>persona.
     and_then (\<lambda>fs. save_persona (now w) fs persona name) (\<lambda>filepath.
     emit [StSuccess (''Successfully analyzed digital persona for **u/'' @ name @ ''**''),
           StInfo (''Report saved as: `'' @ filepath @ ''`'')])))))))"

definition streamlit_hints :: "string \<Rightarrow> event list" where
  "streamlit_hints msg =
     (if contains ''api_key'' (lower msg)
      then [StError ''Invalid Groq API credentials. Please verify your configuration.'']
      else if contains ''rate_limit'' (lower msg)
      then [StError ''Rate limit reached. Please wait before retrying.'']
      else if contains ''not found'' (lower msg)
      then [StError ''Reddit user not found or profile is private/suspended.'']
      else [])"

definition streamlit_app :: "world \<Rightarrow> widgets \<Rightarrow> filesystem \<Rightarrow> filesystem \<times> event list" where
  "streamlit_app w ui fs =
     (if \<not> button ui then (fs, [])
      else if reddit_url ui = []
      then (fs, [StError ''Please provide a valid Reddit profile URL to begin analysis.''])
      else if \<not> truthy (REDDIT_CLIENT_ID w) \<or> \<not> truthy (REDDIT_CLIENT_SECRET w)
      then (fs, [StError ''Reddit API credentials not configured. Please check the sidebar for setup instructions.''])
      else if \<not> truthy (GROQ_API_KEY w)
      then (fs, [StError ''Groq API key not configured. Please check the sidebar for setup instructions.''])
      else (case streamlit_try w ui fs of
              (Inr _, fs1, ev) \<Rightarrow> (fs1, ev)
            | (Inl e, fs1, ev) \<Rightarrow>
                (fs1, ev @ [StError (''Analysis failed: '' @ str e)] @ streamlit_hints (str e))))"

section \<open>Properties\<close>

subsection \<open>Vocabulary of the properties\<close>

text \<open>
  A URL has the shape \<^verbatim>\<open>...lit<name>\<close> at offset \<open>i\<close>: the literal of a pattern stands at
  \<open>i\<close>, and \<open>name\<close> is the non-empty text after it up to the next slash or the end.
\<close>

definition shape_at :: "string \<Rightarrow> string \<Rightarrow> nat \<Rightarrow> string \<Rightarrow> bool" where
  "shape_at lit url i name \<longleftrightarrow>
     i \<le> length url \<and> name \<noteq> [] \<and> CHR ''/'' \<notin> set name \<and>
     (\<exists>rest. drop i url = lit @ name @ rest \<and> (case rest of [] \<Rightarrow> True | c # _ \<Rightarrow> c = CHR ''/''))"

text \<open>The URL matches the pattern somewhere; \<open>first_group\<close> is group 1 of its leftmost match.\<close>

definition matches :: "string \<Rightarrow> string \<Rightarrow> bool" where
  "matches lit url \<longleftrightarrow> (\<exists>i name. shape_at lit url i name)"

definition first_group :: "string \<Rightarrow> string \<Rightarrow> string \<Rightarrow> bool" where
  "first_group lit url name \<longleftrightarrow>
     (\<exists>i. shape_at lit url i name \<and> (\<forall>j<i. \<forall>n. \<not> shape_at lit url j n))"


subsection \<open>Example runs of the collector\<close>

text \<open>
  A user without posts whose comment listing fails on its second page: the first page
  of 100 comments has been yielded when the content API answers with an error.
\<close>

definition comment_c1 :: api_comment where
  "comment_c1 =
     \<lparr>api_comment_id = ''c1'', api_comment_body = ''a comment of some length'',
      api_comment_subreddit = ''test'', api_comment_score = 1,
      api_comment_created_utc = 1700000000, api_comment_permalink = ''/r/test/comments/c1''\<rparr>"

definition api_partial :: content_api where
  "api_partial =
     \<lparr>redditor_id = (\<lambda>_. HasId),
      submissions_new = (\<lambda>_ _. Listing [] None),
      comments_new = (\<lambda>_ _. Listing (replicate 100 comment_c1) (Some ''received 503 HTTP response''))\<rparr>"

subsection \<open>Observations on a trace\<close>

text \<open>The requests to the LLM endpoint, the fetches of posts and comments, and the
  dashboard's success box.\<close>

fun is_llm_call :: "event \<Rightarrow> bool" where
  "is_llm_call (ChatCompletion _) = True"
| "is_llm_call _ = False"

fun is_fetch :: "event \<Rightarrow> bool" where
  "is_fetch (ApiFetchPosts _ _) = True"
| "is_fetch (ApiFetchComments _ _) = True"
| "is_fetch _ = False"

fun is_success :: "event \<Rightarrow> bool" where
  "is_success (StSuccess _) = True"
| "is_success _ = False"

subsection \<open>Example runs of the shells\<close>

text \<open>A user with three posts, one of them a link post without text, and no comments.\<close>

definition alice_submissions :: "submission list" where
  "alice_submissions =
     [\<lparr>submission_id = ''p1'', submission_title = ''First post'',
       submission_selftext = ''Hello there'', submission_subreddit = ''test'',
       submission_score = 3, submission_created_utc = 1700000300,
       submission_permalink = ''/r/test/comments/p1''\<rparr>,
      \<lparr>submission_id = ''p2'', submission_title = ''A link'',
       submission_selftext = [], submission_subreddit = ''pics'',
       submission_score = 10, submission_created_utc = 1700000200,
       submission_permalink = ''/r/pics/comments/p2''\<rparr>,
      \<lparr>submission_id = ''p3'', submission_title = ''Question'',
       submission_selftext = ''How does it work?'', submission_subreddit = ''askreddit'',
       submission_score = 1, submission_created_utc = 1700000100,
       submission_permalink = ''/r/askreddit/comments/p3''\<rparr>]"

definition api_alice :: content_api where
  "api_alice =
     \<lparr>redditor_id = (\<lambda>_. HasId),
      submissions_new = (\<lambda>_ _. Listing alice_submissions None),
      comments_new = (\<lambda>_ _. Listing [] None)\<rparr>"

text \<open>
  An LLM endpoint that answers every request; its client refuses a missing key with
  the message of the client library.
\<close>

definition llm_ok :: llm_api where
  "llm_ok =
     \<lparr>Groq = (\<lambda>k. if truthy k then None
                  else Some ''The api_key client option must be set either by passing api_key to the client or by setting the GROQ_API_KEY environment variable''),
      chat_completions_create = (\<lambda>r. Inr (if req_max_tokens r = 1 then ''ok'' else ''Reddit Username: alice''))\<rparr>"

definition clock_example :: datetime where
  "clock_example = \<lparr>year = 2025, month = 7, day = 4, hour = 9, minute = 5, second = 30\<rparr>"

definition world_ok :: world where
  "world_ok =
     \<lparr>REDDIT_CLIENT_ID = Some ''client-id'', REDDIT_CLIENT_SECRET = Some ''client-secret'',
      GROQ_API_KEY = Some ''gsk-key'',
      praw_Reddit = (\<lambda>_ _ _. Inr api_alice), llm = llm_ok, now = clock_example\<rparr>"

text \<open>The same, with \<^verbatim>\<open>GROQ_API_KEY\<close> not set.\<close>

definition world_no_llm_key :: world where
  "world_no_llm_key = world_ok\<lparr>GROQ_API_KEY := None\<rparr>"

text \<open>The same as \<open>world_ok\<close>, for the user of \<open>api_partial\<close>.\<close>

definition world_partial :: world where
  "world_partial = world_ok\<lparr>praw_Reddit := (\<lambda>_ _ _. Inr api_partial)\<rparr>"

definition args_alice :: args where
  "args_alice =
     \<lparr>arg_url = ''https://reddit.com/user/alice'', arg_depth = 100,
      arg_model = ''llama3-70b-8192'', arg_output = ''output''\<rparr>"

text \<open>\<^verbatim>\<open>--url https://reddit.com/user/alice --output results\<close>\<close>

definition args_results :: args where
  "args_results = args_alice\<lparr>arg_output := ''results''\<rparr>"

definition widgets_alice :: widgets where
  "widgets_alice =
     \<lparr>reddit_url = ''https://reddit.com/user/alice'', scrape_limit = 500,
      model_choice = ''llama3-70b-8192'', button = True\<rparr>"

subsection \<open>Vocabulary of the excerpt\<close>

text \<open>
  The entry of a post: its id, its title and, when it has a text, the first 500
  characters of the text. The entry of a comment: its id and the first 500 characters of
  its body.
\<close>

definition post_line :: "post \<Rightarrow> string" where
  "post_line p =
     ''POST ['' @ post_id p @ '']: '' @ title p @
     (if selftext p = [] then [] else '' - '' @ take 500 (selftext p))"

definition comment_line :: "comment \<Rightarrow> string" where
  "comment_line c = ''COMMENT ['' @ comment_id c @ '']: '' @ take 500 (body c)"

definition is_post_line :: "string \<Rightarrow> bool" where
  "is_post_line l = startswith l ''POST [''"

definition is_comment_line :: "string \<Rightarrow> bool" where
  "is_comment_line l = startswith l ''COMMENT [''"

text \<open>Collection results: the one of \<open>api_alice\<close>; three posts of which the second has
  no title; two posts and two comments, one of them short.\<close>

definition ud_alice :: user_data where
  "ud_alice =
     \<lparr>username = ''alice'', posts = map make_post alice_submissions, comments = [],
      total_posts = 3, total_comments = 0\<rparr>"

definition ud_untitled :: user_data where
  "ud_untitled =
     \<lparr>username = ''alice'',
      posts = [\<lparr>post_id = ''p1'', title = ''First post'', selftext = ''Hello there'',
                post_subreddit = ''test'', post_score = 3, post_created_utc = 1700000300,
                post_url = ''https://reddit.com/r/test/comments/p1''\<rparr>,
               \<lparr>post_id = ''p2'', title = [], selftext = ''Text without a title'',
                post_subreddit = ''test'', post_score = 1, post_created_utc = 1700000200,
                post_url = ''https://reddit.com/r/test/comments/p2''\<rparr>,
               \<lparr>post_id = ''p3'', title = ''Question'', selftext = ''How does it work?'',
                post_subreddit = ''askreddit'', post_score = 1, post_created_utc = 1700000100,
                post_url = ''https://reddit.com/r/askreddit/comments/p3''\<rparr>],
      comments = [], total_posts = 3, total_comments = 0\<rparr>"

definition ud_mixed :: user_data where
  "ud_mixed =
     \<lparr>username = ''bob'',
      posts = [\<lparr>post_id = ''p1'', title = ''First post'', selftext = ''Hello there'',
                post_subreddit = ''test'', post_score = 3, post_created_utc = 1700000300,
                post_url = ''https://reddit.com/r/test/comments/p1''\<rparr>,
               \<lparr>post_id = ''p2'', title = ''A link'', selftext = [],
                post_subreddit = ''pics'', post_score = 10, post_created_utc = 1700000200,
                post_url = ''https://reddit.com/r/pics/comments/p2''\<rparr>],
      comments = [\<lparr>comment_id = ''c1'', body = ''thanks'',
                   comment_subreddit = ''test'', comment_score = 1,
                   comment_created_utc = 1700000150,
                   comment_url = ''https://reddit.com/r/test/comments/p1/c1''\<rparr>,
                  \<lparr>comment_id = ''c2'', body = ''I think this is right'',
                   comment_subreddit = ''test'', comment_score = 2,
                   comment_created_utc = 1700000120,
                   comment_url = ''https://reddit.com/r/test/comments/p1/c2''\<rparr>],
      total_posts = 2, total_comments = 2\<rparr>"

subsection \<open>Vocabulary of the report\<close>

text \<open>The path \<^verbatim>\<open>output/<username>_digital_profile.txt\<close>.\<close>

definition report_path :: "string \<Rightarrow> string" where
  "report_path name = ''output/'' @ name @ ''_digital_profile.txt''"









subsection \<open>The identity resolver\<close>

lemma takeWhile_run:
  "s = name @ rest \<Longrightarrow> CHR ''/'' \<notin> set name \<Longrightarrow>
   (case rest of [] \<Rightarrow> True | c # _ \<Rightarrow> c = CHR ''/'') \<Longrightarrow>
   takeWhile (\<lambda>c. c \<noteq> CHR ''/'') s = name"
proof -
  assume s: "s = name @ rest" and n: "CHR ''/'' \<notin> set name"
    and r: "(case rest of [] \<Rightarrow> True | c # _ \<Rightarrow> c = CHR ''/'')"
  have a: "takeWhile (\<lambda>c. c \<noteq> CHR ''/'') (name @ rest) = name @ takeWhile (\<lambda>c. c \<noteq> CHR ''/'') rest"
    using n by (intro takeWhile_append2) auto
  have b: "takeWhile (\<lambda>c. c \<noteq> CHR ''/'') rest = []" using r by (cases rest) auto
  show ?thesis using s a b by simp
qed

lemma dropWhile_slash_head:
  "(case dropWhile (\<lambda>c. c \<noteq> CHR ''/'') s of [] \<Rightarrow> True | c # _ \<Rightarrow> c = CHR ''/'')"
  by (induction s) auto

lemma match_here_Some_iff:
  "match_here lit s = Some name \<longleftrightarrow> shape_at lit s 0 name"
proof
  assume h: "match_here lit s = Some name"
  let ?d = "drop (length lit) s"
  let ?P = "\<lambda>c. c \<noteq> CHR ''/''"
  from h have sw: "take (length lit) s = lit"
    by (simp add: match_here_def startswith_def Let_def split: if_splits)
  from h have g: "takeWhile ?P ?d = name"
    by (simp add: match_here_def startswith_def Let_def split: if_splits)
  from h have ne: "name \<noteq> []"
    by (auto simp add: match_here_def startswith_def Let_def split: if_splits)
  have "take (length lit) s @ ?d = s" by (rule append_take_drop_id)
  then have s: "s = lit @ ?d" using sw by simp
  have "takeWhile ?P ?d @ dropWhile ?P ?d = ?d" by (rule takeWhile_dropWhile_id)
  then have d: "?d = name @ dropWhile ?P ?d" using g by simp
  have nos: "CHR ''/'' \<notin> set name"
  proof
    assume "CHR ''/'' \<in> set name"
    then have "CHR ''/'' \<in> set (takeWhile ?P ?d)" using g by simp
    then show False by (auto dest: set_takeWhileD)
  qed
  have "s = lit @ name @ dropWhile ?P ?d" using s d by simp
  then have "\<exists>rest. drop 0 s = lit @ name @ rest \<and> (case rest of [] \<Rightarrow> True | c # _ \<Rightarrow> c = CHR ''/'')"
    using dropWhile_slash_head[of ?d] by auto
  then show "shape_at lit s 0 name"
    unfolding shape_at_def using ne nos by simp
next
  assume "shape_at lit s 0 name"
  then obtain rest where ne: "name \<noteq> []" and nos: "CHR ''/'' \<notin> set name"
    and s: "s = lit @ name @ rest" and r: "(case rest of [] \<Rightarrow> True | c # _ \<Rightarrow> c = CHR ''/'')"
    by (auto simp: shape_at_def)
  have "takeWhile (\<lambda>c. c \<noteq> CHR ''/'') (name @ rest) = name"
    using takeWhile_run[OF refl nos r] .
  then show "match_here lit s = Some name"
    using s ne by (simp add: match_here_def startswith_def)
qed

lemma shape_at_Cons: "shape_at lit (c # cs) (Suc i) name \<longleftrightarrow> shape_at lit cs i name"
  by (simp add: shape_at_def)

lemma shape_at_Nil: "shape_at lit [] i name \<Longrightarrow> i = 0"
  by (simp add: shape_at_def)

lemma re_search_Some_iff: "re_search lit url = Some name \<longleftrightarrow> first_group lit url name"
proof (induction url)
  case Nil
  show ?case
    by (auto simp: first_group_def match_here_Some_iff dest: shape_at_Nil)
next
  case (Cons c cs)
  show ?case
  proof (cases "match_here lit (c # cs)")
    case (Some g)
    then have g: "shape_at lit (c # cs) 0 g" by (simp add: match_here_Some_iff)
    have "first_group lit (c # cs) name \<longleftrightarrow> name = g"
    proof
      assume "first_group lit (c # cs) name"
      then obtain i where i: "shape_at lit (c # cs) i name" and m: "\<forall>j<i. \<forall>n. \<not> shape_at lit (c # cs) j n"
        by (auto simp: first_group_def)
      have "i = 0" using m g by (cases i) auto
      then have "match_here lit (c # cs) = Some name" using i by (simp add: match_here_Some_iff)
      then show "name = g" using Some by simp
    next
      assume "name = g" then show "first_group lit (c # cs) name"
        using g by (auto simp: first_group_def)
    qed
    then show ?thesis using Some by auto
  next
    case None
    then have n0: "\<And>n. \<not> shape_at lit (c # cs) 0 n"
      using match_here_Some_iff[of lit "c # cs"] by simp
    have "first_group lit (c # cs) name \<longleftrightarrow> first_group lit cs name"
    proof
      assume "first_group lit (c # cs) name"
      then obtain i where i: "shape_at lit (c # cs) i name" and m: "\<forall>j<i. \<forall>n. \<not> shape_at lit (c # cs) j n"
        by (auto simp: first_group_def)
      obtain k where k: "i = Suc k" using i n0 by (cases i) auto
      have "shape_at lit cs k name" using i k by (simp add: shape_at_Cons)
      moreover have "\<forall>j<k. \<forall>n. \<not> shape_at lit cs j n"
      proof (intro allI impI)
        fix j n assume "j < k"
        then have "\<not> shape_at lit (c # cs) (Suc j) n" using m k by simp
        then show "\<not> shape_at lit cs j n" by (simp add: shape_at_Cons)
      qed
      ultimately show "first_group lit cs name" by (auto simp: first_group_def)
    next
      assume "first_group lit cs name"
      then obtain i where i: "shape_at lit cs i name" and m: "\<forall>j<i. \<forall>n. \<not> shape_at lit cs j n"
        by (auto simp: first_group_def)
      have "shape_at lit (c # cs) (Suc i) name" using i by (simp add: shape_at_Cons)
      moreover have "\<forall>j<Suc i. \<forall>n. \<not> shape_at lit (c # cs) j n"
      proof (intro allI impI)
        fix j n assume "j < Suc i"
        then show "\<not> shape_at lit (c # cs) j n"
          using n0 m by (cases j) (auto simp: shape_at_Cons)
      qed
      ultimately show "first_group lit (c # cs) name" unfolding first_group_def by blast
    qed
    then show ?thesis using None Cons.IH by simp
  qed
qed

lemma matches_first_group: "matches lit url \<longleftrightarrow> (\<exists>name. first_group lit url name)"
proof
  assume "matches lit url"
  then obtain i0 n0 where "shape_at lit url i0 n0" by (auto simp: matches_def)
  then have ex: "\<exists>i. \<exists>n. shape_at lit url i n" by blast
  define i where "i = (LEAST i. \<exists>n. shape_at lit url i n)"
  have "\<exists>n. shape_at lit url i n" unfolding i_def using ex by (rule LeastI_ex)
  moreover have "\<forall>j<i. \<forall>n. \<not> shape_at lit url j n"
    unfolding i_def using not_less_Least by blast
  ultimately show "\<exists>name. first_group lit url name" by (auto simp: first_group_def)
next
  assume "\<exists>name. first_group lit url name"
  then show "matches lit url" by (auto simp: first_group_def matches_def)
qed

lemma re_search_None_iff: "re_search lit url = None \<longleftrightarrow> \<not> matches lit url"
proof -
  have "re_search lit url = None \<longleftrightarrow> (\<forall>name. re_search lit url \<noteq> Some name)" by auto
  also have "\<dots> \<longleftrightarrow> (\<forall>name. \<not> first_group lit url name)" by (simp add: re_search_Some_iff)
  also have "\<dots> \<longleftrightarrow> \<not> matches lit url" by (simp add: matches_first_group)
  finally show ?thesis .
qed


lemma first_match_None_iff:
  "first_match ps u = None \<longleftrightarrow> (\<forall>lit \<in> set ps. \<not> matches lit u)"
proof (induction ps)
  case Nil
  show ?case by simp
next
  case (Cons p ps)
  show ?case
  proof (cases "re_search p u")
    case None
    then have "\<not> matches p u" by (simp add: re_search_None_iff)
    with None Cons.IH show ?thesis by simp
  next
    case (Some g)
    then have "matches p u" using re_search_None_iff[of p u] by simp
    with Some show ?thesis by auto
  qed
qed

lemma first_match_at:
  "k < length ps \<Longrightarrow> (\<forall>j<k. \<not> matches (ps ! j) u) \<Longrightarrow> matches (ps ! k) u \<Longrightarrow>
   first_match ps u = re_search (ps ! k) u"
proof (induction ps arbitrary: k)
  case Nil
  then show ?case by simp
next
  case (Cons p ps)
  show ?case
  proof (cases k)
    case 0
    with Cons.prems have "re_search p u \<noteq> None" by (simp add: re_search_None_iff)
    with 0 show ?thesis by (auto split: option.splits)
  next
    case (Suc k')
    with Cons.prems have p: "re_search p u = None"
      using re_search_None_iff[of p u] by auto
    have "first_match ps u = re_search (ps ! k') u"
    proof (rule Cons.IH)
      show "k' < length ps" using Cons.prems Suc by simp
      show "\<forall>j<k'. \<not> matches (ps ! j) u"
      proof (intro allI impI)
        fix j assume "j < k'"
        then have "Suc j < k" using Suc by simp
        then have "\<not> matches ((p # ps) ! Suc j) u" using Cons.prems by blast
        then show "\<not> matches (ps ! j) u" by simp
      qed
      show "matches (ps ! k') u" using Cons.prems Suc by simp
    qed
    with p Suc show ?thesis by simp
  qed
qed

lemma first_group_at:
  assumes "k < length ps" and "matches (ps ! k) u" and "\<forall>j<k. \<not> matches (ps ! j) u"
  shows "(\<exists>name. first_group (ps ! k) u name) \<and>
         (\<forall>name. first_group (ps ! k) u name \<longrightarrow> first_match ps u = Some name)"
proof (intro conjI allI impI)
  show "\<exists>name. first_group (ps ! k) u name"
    using assms(2) by (simp add: matches_first_group)
next
  fix name assume "first_group (ps ! k) u name"
  then have "re_search (ps ! k) u = Some name" by (simp add: re_search_Some_iff)
  then show "first_match ps u = Some name"
    using first_match_at[OF assms(1) assms(3) assms(2)] by simp
qed

text \<open>
  C5. A URL that has the shape \<^verbatim>\<open>...reddit.com/u/<name>\<close> is resolved to that name
  (group 1 of the leftmost match); one that has not, and has the shape
  \<^verbatim>\<open>...reddit.com/user/<name>\<close>, is resolved to that name; one that has neither, and has
  the shape \<^verbatim>\<open>...reddit.com/users/<name>\<close>, is resolved to that name; and a URL that has
  none of the three shapes raises \<^verbatim>\<open>ValueError\<close> with the message
  \<^verbatim>\<open>Invalid Reddit URL format: <url>\<close>.
\<close>

theorem extract_username_from_url_first_group:
  "(\<not> matches ''reddit.com/u/'' u \<and> \<not> matches ''reddit.com/user/'' u \<and>
    \<not> matches ''reddit.com/users/'' u \<longrightarrow>
      extract_username_from_url u = Inl (ValueError (''Invalid Reddit URL format: '' @ u))) \<and>
   (matches ''reddit.com/u/'' u \<longrightarrow>
      (\<exists>name. first_group ''reddit.com/u/'' u name) \<and>
      (\<forall>name. first_group ''reddit.com/u/'' u name \<longrightarrow>
         extract_username_from_url u = Inr name)) \<and>
   (\<not> matches ''reddit.com/u/'' u \<and> matches ''reddit.com/user/'' u \<longrightarrow>
      (\<exists>name. first_group ''reddit.com/user/'' u name) \<and>
      (\<forall>name. first_group ''reddit.com/user/'' u name \<longrightarrow>
         extract_username_from_url u = Inr name)) \<and>
   (\<not> matches ''reddit.com/u/'' u \<and> \<not> matches ''reddit.com/user/'' u \<and>
    matches ''reddit.com/users/'' u \<longrightarrow>
      (\<exists>name. first_group ''reddit.com/users/'' u name) \<and>
      (\<forall>name. first_group ''reddit.com/users/'' u name \<longrightarrow>
         extract_username_from_url u = Inr name))"
proof (intro conjI impI)
  assume "\<not> matches ''reddit.com/u/'' u \<and> \<not> matches ''reddit.com/user/'' u \<and>
    \<not> matches ''reddit.com/users/'' u"
  then have "\<forall>lit \<in> set patterns. \<not> matches lit u"
    by (simp add: patterns_def)
  then have "first_match patterns u = None"
    by (simp only: first_match_None_iff)
  then show "extract_username_from_url u = Inl (ValueError (''Invalid Reddit URL format: '' @ u))"
    by (simp add: extract_username_from_url_def)
next
  assume m: "matches ''reddit.com/u/'' u"
  have "(\<exists>name. first_group (patterns ! 0) u name) \<and>
        (\<forall>name. first_group (patterns ! 0) u name \<longrightarrow> first_match patterns u = Some name)"
    by (rule first_group_at) (use m in \<open>simp_all add: patterns_def\<close>)
  then have r: "(\<exists>name. first_group ''reddit.com/u/'' u name) \<and>
        (\<forall>name. first_group ''reddit.com/u/'' u name \<longrightarrow> first_match patterns u = Some name)"
    by (simp add: patterns_def)
  from r show "\<exists>name. first_group ''reddit.com/u/'' u name" by (rule conjunct1)
  from r show "\<forall>name. first_group ''reddit.com/u/'' u name \<longrightarrow>
         extract_username_from_url u = Inr name"
    by (simp add: extract_username_from_url_def)
next
  assume m: "\<not> matches ''reddit.com/u/'' u \<and> matches ''reddit.com/user/'' u"
  have below: "\<forall>j<Suc 0. \<not> matches (patterns ! j) u"
    using m by (simp add: patterns_def)
  have "(\<exists>name. first_group (patterns ! Suc 0) u name) \<and>
        (\<forall>name. first_group (patterns ! Suc 0) u name \<longrightarrow> first_match patterns u = Some name)"
    by (rule first_group_at[OF _ _ below]) (use m in \<open>simp_all add: patterns_def\<close>)
  then have r: "(\<exists>name. first_group ''reddit.com/user/'' u name) \<and>
        (\<forall>name. first_group ''reddit.com/user/'' u name \<longrightarrow> first_match patterns u = Some name)"
    by (simp add: patterns_def)
  from r show "\<exists>name. first_group ''reddit.com/user/'' u name" by (rule conjunct1)
  from r show "\<forall>name. first_group ''reddit.com/user/'' u name \<longrightarrow>
         extract_username_from_url u = Inr name"
    by (simp add: extract_username_from_url_def)
next
  assume m: "\<not> matches ''reddit.com/u/'' u \<and> \<not> matches ''reddit.com/user/'' u \<and>
    matches ''reddit.com/users/'' u"
  have below: "\<forall>j<Suc (Suc 0). \<not> matches (patterns ! j) u"
    using m by (simp add: patterns_def less_Suc_eq)
  have "(\<exists>name. first_group (patterns ! Suc (Suc 0)) u name) \<and>
        (\<forall>name. first_group (patterns ! Suc (Suc 0)) u name \<longrightarrow>
           first_match patterns u = Some name)"
    by (rule first_group_at[OF _ _ below]) (use m in \<open>simp_all add: patterns_def\<close>)
  then have r: "(\<exists>name. first_group ''reddit.com/users/'' u name) \<and>
        (\<forall>name. first_group ''reddit.com/users/'' u name \<longrightarrow> first_match patterns u = Some name)"
    by (simp add: patterns_def)
  from r show "\<exists>name. first_group ''reddit.com/users/'' u name" by (rule conjunct1)
  from r show "\<forall>name. first_group ''reddit.com/users/'' u name \<longrightarrow>
         extract_username_from_url u = Inr name"
    by (simp add: extract_username_from_url_def)
qed

lemma search_examples:
  "re_search ''reddit.com/u/'' ''https://www.reddit.com/u/alice'' = Some ''alice''"
  "re_search ''reddit.com/u/'' ''https://reddit.com/user/bob/'' = None"
  "re_search ''reddit.com/user/'' ''https://reddit.com/user/bob/'' = Some ''bob''"
  "re_search ''reddit.com/u/'' ''https://old.reddit.com/users/carol/posts'' = None"
  "re_search ''reddit.com/user/'' ''https://old.reddit.com/users/carol/posts'' = None"
  "re_search ''reddit.com/users/'' ''https://old.reddit.com/users/carol/posts'' = Some ''carol''"
  "re_search ''reddit.com/u/'' ''https://example.com/alice'' = None"
  "re_search ''reddit.com/user/'' ''https://example.com/alice'' = None"
  "re_search ''reddit.com/users/'' ''https://example.com/alice'' = None"
  by (simp_all add: match_here_def startswith_def)

theorem extract_username_from_url_first_group_witness:
  "matches ''reddit.com/u/'' ''https://www.reddit.com/u/alice'' \<and>
   first_group ''reddit.com/u/'' ''https://www.reddit.com/u/alice'' ''alice'' \<and>
   extract_username_from_url ''https://www.reddit.com/u/alice'' = Inr ''alice'' \<and>
   \<not> matches ''reddit.com/u/'' ''https://reddit.com/user/bob/'' \<and>
   matches ''reddit.com/user/'' ''https://reddit.com/user/bob/'' \<and>
   first_group ''reddit.com/user/'' ''https://reddit.com/user/bob/'' ''bob'' \<and>
   extract_username_from_url ''https://reddit.com/user/bob/'' = Inr ''bob'' \<and>
   \<not> matches ''reddit.com/u/'' ''https://old.reddit.com/users/carol/posts'' \<and>
   \<not> matches ''reddit.com/user/'' ''https://old.reddit.com/users/carol/posts'' \<and>
   matches ''reddit.com/users/'' ''https://old.reddit.com/users/carol/posts'' \<and>
   first_group ''reddit.com/users/'' ''https://old.reddit.com/users/carol/posts'' ''carol'' \<and>
   extract_username_from_url ''https://old.reddit.com/users/carol/posts'' = Inr ''carol'' \<and>
   \<not> matches ''reddit.com/u/'' ''https://example.com/alice'' \<and>
   \<not> matches ''reddit.com/user/'' ''https://example.com/alice'' \<and>
   \<not> matches ''reddit.com/users/'' ''https://example.com/alice'' \<and>
   extract_username_from_url ''https://example.com/alice'' =
     Inl (ValueError ''Invalid Reddit URL format: https://example.com/alice'')"
proof -
  let ?a = "''https://www.reddit.com/u/alice''" and ?b = "''https://reddit.com/user/bob/''"
  let ?c = "''https://old.reddit.com/users/carol/posts''" and ?v = "''https://example.com/alice''"
  note yes = iffD1[OF re_search_Some_iff] and no = iffD1[OF re_search_None_iff]
  have ga: "first_group ''reddit.com/u/'' ?a ''alice''" by (rule yes) (rule search_examples(1))
  have ma: "matches ''reddit.com/u/'' ?a"
    by (rule iffD2[OF matches_first_group], rule exI[where x = "''alice''"]) (rule ga)
  have nb: "\<not> matches ''reddit.com/u/'' ?b" by (rule no) (rule search_examples(2))
  have gb: "first_group ''reddit.com/user/'' ?b ''bob''" by (rule yes) (rule search_examples(3))
  have mb: "matches ''reddit.com/user/'' ?b"
    by (rule iffD2[OF matches_first_group], rule exI[where x = "''bob''"]) (rule gb)
  have nc1: "\<not> matches ''reddit.com/u/'' ?c" by (rule no) (rule search_examples(4))
  have nc2: "\<not> matches ''reddit.com/user/'' ?c" by (rule no) (rule search_examples(5))
  have gc: "first_group ''reddit.com/users/'' ?c ''carol''" by (rule yes) (rule search_examples(6))
  have mc: "matches ''reddit.com/users/'' ?c"
    by (rule iffD2[OF matches_first_group], rule exI[where x = "''carol''"]) (rule gc)
  have nv1: "\<not> matches ''reddit.com/u/'' ?v" by (rule no) (rule search_examples(7))
  have nv2: "\<not> matches ''reddit.com/user/'' ?v" by (rule no) (rule search_examples(8))
  have nv3: "\<not> matches ''reddit.com/users/'' ?v" by (rule no) (rule search_examples(9))
  have ha: "matches ''reddit.com/u/'' ?a" by (rule ma)
  have hb: "\<not> matches ''reddit.com/u/'' ?b \<and> matches ''reddit.com/user/'' ?b"
    using nb mb by (intro conjI)
  have hc: "\<not> matches ''reddit.com/u/'' ?c \<and> \<not> matches ''reddit.com/user/'' ?c \<and>
            matches ''reddit.com/users/'' ?c"
    using nc1 nc2 mc by (intro conjI)
  have hv: "\<not> matches ''reddit.com/u/'' ?v \<and> \<not> matches ''reddit.com/user/'' ?v \<and>
            \<not> matches ''reddit.com/users/'' ?v"
    using nv1 nv2 nv3 by (intro conjI)
  have ra: "extract_username_from_url ?a = Inr ''alice''"
    by (rule extract_username_from_url_first_group[of ?a, THEN conjunct2, THEN conjunct1,
          THEN mp, OF ha, THEN conjunct2, THEN spec, THEN mp, OF ga])
  have rb: "extract_username_from_url ?b = Inr ''bob''"
    by (rule extract_username_from_url_first_group[of ?b, THEN conjunct2, THEN conjunct2,
          THEN conjunct1, THEN mp, OF hb, THEN conjunct2, THEN spec, THEN mp, OF gb])
  have rc: "extract_username_from_url ?c = Inr ''carol''"
    by (rule extract_username_from_url_first_group[of ?c, THEN conjunct2, THEN conjunct2,
          THEN conjunct2, THEN mp, OF hc, THEN conjunct2, THEN spec, THEN mp, OF gc])
  have rv0: "extract_username_from_url ?v = Inl (ValueError (''Invalid Reddit URL format: '' @ ?v))"
    by (rule extract_username_from_url_first_group[of ?v, THEN conjunct1, THEN mp, OF hv])
  have rv: "extract_username_from_url ?v =
     Inl (ValueError ''Invalid Reddit URL format: https://example.com/alice'')"
    using rv0 by simp
  show ?thesis
    using ma ga ra nb mb gb rb nc1 nc2 mc gc rc nv1 nv2 nv3 rv by (intro conjI)
qed

subsection \<open>The content collector\<close>

lemma fold_append_map: "fold (\<lambda>x acc. acc @ [f x]) xs acc = acc @ map f xs"
  by (induction xs arbitrary: acc) simp_all

lemma collect_items: "fst (collect mk what (Listing xs failure)) = map mk xs"
  by (simp add: fold_append_map)

lemma collect_events:
  "snd (collect mk what (Listing xs failure)) =
     (case failure of None \<Rightarrow> [] | Some m \<Rightarrow> [Print (''Error scraping '' @ what @ '': '' @ m)])"
  by simp

lemma scrape_user_data_found:
  assumes "redditor_id api name = HasId \<or> redditor_id api name = NoIdAttr True"
    and "submissions_new api name limit = Listing xs fx"
    and "comments_new api name limit = Listing ys fy"
  shows "scrape_user_data api name limit =
     (Inr \<lparr>username = name, posts = map make_post xs, comments = map make_comment ys,
           total_posts = length xs, total_comments = length ys\<rparr>,
      [ApiUserLookup name, ApiFetchPosts name limit] @
      (case fx of None \<Rightarrow> [] | Some m \<Rightarrow> [Print (''Error scraping posts: '' @ m)]) @
      [ApiFetchComments name limit] @
      (case fy of None \<Rightarrow> [] | Some m \<Rightarrow> [Print (''Error scraping comments: '' @ m)]))"
  using assms by (auto simp: scrape_user_data_def fold_append_map split: option.splits)

lemma scrape_user_data_Inr:
  assumes "scrape_user_data api name limit = (Inr ud, ev)"
  shows "redditor_id api name = HasId \<or> redditor_id api name = NoIdAttr True"
  using assms by (auto simp: scrape_user_data_def split: lookup.splits bool.splits)

text \<open>
  C8. Whenever the content collector returns a collection result, \<^verbatim>\<open>total_posts\<close> is the
  length of its post sequence and \<^verbatim>\<open>total_comments\<close> the length of its comment sequence:
  the number of items the two listings yielded, whatever limit was requested.
\<close>

theorem scrape_user_data_counts:
  assumes "scrape_user_data api name limit = (Inr ud, ev)"
  shows "total_posts ud = length (posts ud) \<and> total_comments ud = length (comments ud) \<and>
         (\<forall>xs fx ys fy. submissions_new api name limit = Listing xs fx \<and>
                         comments_new api name limit = Listing ys fy \<longrightarrow>
                         total_posts ud = length xs \<and> total_comments ud = length ys)"
proof -
  have found: "redditor_id api name = HasId \<or> redditor_id api name = NoIdAttr True"
    using assms by (rule scrape_user_data_Inr)
  obtain xs fx where X: "submissions_new api name limit = Listing xs fx"
    by (cases "submissions_new api name limit") auto
  obtain ys fy where Y: "comments_new api name limit = Listing ys fy"
    by (cases "comments_new api name limit") auto
  have ud: "ud = \<lparr>username = name, posts = map make_post xs, comments = map make_comment ys,
           total_posts = length xs, total_comments = length ys\<rparr>"
    using scrape_user_data_found[OF found X Y] assms by simp
  show ?thesis using ud X Y by simp
qed

theorem scrape_user_data_counts_witness:
  "scrape_user_data api_partial ''alice'' 500 =
     (Inr \<lparr>username = ''alice'', posts = [], comments = replicate 100 (make_comment comment_c1),
           total_posts = 0, total_comments = 100\<rparr>,
      [ApiUserLookup ''alice'', ApiFetchPosts ''alice'' 500, ApiFetchComments ''alice'' 500,
       Print ''Error scraping comments: received 503 HTTP response'']) \<and>
   (0::nat) = length ([] :: post list) \<and>
   (100::nat) = length (replicate 100 (make_comment comment_c1))"
proof -
  have run: "scrape_user_data api_partial ''alice'' 500 =
     (Inr \<lparr>username = ''alice'', posts = [], comments = replicate 100 (make_comment comment_c1),
           total_posts = 0, total_comments = 100\<rparr>,
      [ApiUserLookup ''alice'', ApiFetchPosts ''alice'' 500, ApiFetchComments ''alice'' 500,
       Print ''Error scraping comments: received 503 HTTP response''])"
    using scrape_user_data_found[of api_partial "''alice''" 500 "[]" None "replicate 100 comment_c1"
        "Some ''received 503 HTTP response''"]
    by (simp add: api_partial_def)
  from scrape_user_data_counts[OF run] show ?thesis using run by simp
qed

subsection \<open>The excerpt\<close>

lemma add_post_eq:
  "add_post p content = content @ (if title p \<noteq> [] then [post_line p] else [])"
  by (simp add: add_post_def post_line_def)

lemma add_comment_eq:
  "add_comment c content = content @ (if 10 < length (body c) then [comment_line c] else [])"
  by (auto simp: add_comment_def comment_line_def)

lemma fold_add_post:
  "fold add_post ps acc = acc @ map post_line (filter (\<lambda>p. title p \<noteq> []) ps)"
  by (induction ps arbitrary: acc) (simp_all add: add_post_eq)

lemma fold_add_comment:
  "fold add_comment cs acc = acc @ map comment_line (filter (\<lambda>c. 10 < length (body c)) cs)"
  by (induction cs arbitrary: acc) (simp_all add: add_comment_eq)

lemma content_entries_eq:
  "content_entries ud =
     map post_line (filter (\<lambda>p. title p \<noteq> []) (take 50 (posts ud))) @
     map comment_line (filter (\<lambda>c. 10 < length (body c)) (take 50 (comments ud)))"
  by (simp add: content_entries_def fold_add_post fold_add_comment)

lemma is_post_line_post_line: "is_post_line (post_line p)"
  by (simp add: is_post_line_def post_line_def startswith_def)

lemma is_comment_line_comment_line: "is_comment_line (comment_line c)"
  by (simp add: is_comment_line_def comment_line_def startswith_def)

lemma not_comment_line_post_line: "\<not> is_comment_line (post_line p)"
  by (simp add: is_comment_line_def post_line_def startswith_def)

lemma not_post_line_comment_line: "\<not> is_post_line (comment_line c)"
  by (simp add: is_post_line_def comment_line_def startswith_def)


text \<open>
  C4, as stated, fails: of three posts, the one whose title is empty gets no entry, so a
  result with exactly 3 posts and 0 comments yields 2 entries.
\<close>

theorem content_entries_untitled_counterexample:
  "length (posts ud_untitled) = 3 \<and> comments ud_untitled = [] \<and>
   content_entries ud_untitled =
     [''POST [p1]: First post - Hello there'', ''POST [p3]: Question - How does it work?''] \<and>
   length (filter is_post_line (content_entries ud_untitled)) = 2"
  by (simp add: content_entries_eq ud_untitled_def post_line_def is_post_line_def startswith_def)

text \<open>
  C4, amended. The excerpt starts with one entry for each of the first 50 posts that has
  a non-empty title, in collector order, each entry combining the post's id, its title
  and, when the post has a text, the first 500 characters of it; no other entry is a
  post entry. In particular a result with exactly 3 posts, all with a title, and no
  comments yields exactly 3 post entries and no comment entry.
\<close>

theorem content_entries_posts:
  "(\<exists>cs. content_entries ud =
           map post_line (filter (\<lambda>p. title p \<noteq> []) (take 50 (posts ud))) @ cs \<and>
         filter is_post_line cs = []) \<and>
   prepare_content ud = join [CHR 0x0A, CHR 0x0A] (content_entries ud) \<and>
   (length (posts ud) = 3 \<and> (\<forall>p \<in> set (posts ud). title p \<noteq> []) \<and> comments ud = [] \<longrightarrow>
      content_entries ud = map post_line (posts ud) \<and>
      length (filter is_post_line (content_entries ud)) = 3 \<and>
      filter is_comment_line (content_entries ud) = [])"
proof (intro conjI impI)
  let ?cs = "map comment_line (filter (\<lambda>c. 10 < length (body c)) (take 50 (comments ud)))"
  have "filter is_post_line ?cs = []"
    by (simp add: filter_empty_conv not_post_line_comment_line)
  then show "\<exists>cs. content_entries ud =
           map post_line (filter (\<lambda>p. title p \<noteq> []) (take 50 (posts ud))) @ cs \<and>
         filter is_post_line cs = []"
    using content_entries_eq by blast
next
  show "prepare_content ud = join [CHR 0x0A, CHR 0x0A] (content_entries ud)"
    by (simp add: prepare_content_def)
next
  assume h: "length (posts ud) = 3 \<and> (\<forall>p \<in> set (posts ud). title p \<noteq> []) \<and> comments ud = []"
  then have t: "take 50 (posts ud) = posts ud" by simp
  have f: "filter (\<lambda>p. title p \<noteq> []) (posts ud) = posts ud" using h by simp
  show e: "content_entries ud = map post_line (posts ud)"
    using h by (simp add: content_entries_eq t f)
  have "filter is_post_line (map post_line (posts ud)) = map post_line (posts ud)"
    by (simp add: filter_id_conv is_post_line_post_line)
  then show "length (filter is_post_line (content_entries ud)) = 3" using e h by simp
  show "filter is_comment_line (content_entries ud) = []"
    unfolding e by (simp add: filter_empty_conv not_comment_line_post_line)
qed

theorem content_entries_posts_witness:
  "length (posts ud_alice) = 3 \<and> comments ud_alice = [] \<and>
   content_entries ud_alice =
     [''POST [p1]: First post - Hello there'', ''POST [p2]: A link'',
      ''POST [p3]: Question - How does it work?''] \<and>
   length (filter is_post_line (content_entries ud_alice)) = 3 \<and>
   filter is_comment_line (content_entries ud_alice) = []"
proof -
  have a: "length (posts ud_alice) = 3" by (simp add: ud_alice_def alice_submissions_def)
  have b: "comments ud_alice = []" by (simp add: ud_alice_def)
  have c: "\<forall>p \<in> set (posts ud_alice). title p \<noteq> []"
    by (simp add: ud_alice_def alice_submissions_def make_post_def)
  have hyp: "length (posts ud_alice) = 3 \<and> (\<forall>p \<in> set (posts ud_alice). title p \<noteq> []) \<and>
             comments ud_alice = []"
    using a b c by (intro conjI)
  note r = content_entries_posts[of ud_alice, THEN conjunct2, THEN conjunct2, THEN mp, OF hyp]
  have "map post_line (posts ud_alice) =
     [''POST [p1]: First post - Hello there'', ''POST [p2]: A link'',
      ''POST [p3]: Question - How does it work?'']"
    by (simp add: ud_alice_def alice_submissions_def make_post_def post_line_def)
  then have d: "content_entries ud_alice =
     [''POST [p1]: First post - Hello there'', ''POST [p2]: A link'',
      ''POST [p3]: Question - How does it work?'']"
    using r by simp
  have r1: "length (filter is_post_line (content_entries ud_alice)) = 3"
    using r by (elim conjE)
  have r2: "filter is_comment_line (content_entries ud_alice) = []"
    using r by (elim conjE)
  show ?thesis using a b d r1 r2 by (intro conjI)
qed

text \<open>
  C6. The excerpt of a result with N posts and M comments consists of at most min(N,50)
  post entries followed by at most min(M,50) comment entries; an entry holds at most 500
  characters of body text after its id and title; the comment entries are those of the
  comments among the first 50 whose body is longer than 10 characters, so a comment with
  a body of at most 10 characters has no entry.
\<close>

theorem content_entries_bounds:
  "\<exists>ps cs. content_entries ud = ps @ cs \<and>
     prepare_content ud = join [CHR 0x0A, CHR 0x0A] (ps @ cs) \<and>
     ps = map post_line (filter (\<lambda>p. title p \<noteq> []) (take 50 (posts ud))) \<and>
     cs = map comment_line (filter (\<lambda>c. 10 < length (body c)) (take 50 (comments ud))) \<and>
     length ps \<le> min (length (posts ud)) 50 \<and>
     length cs \<le> min (length (comments ud)) 50 \<and>
     (\<forall>p. length (post_line p) \<le> length (''POST ['' @ post_id p @ '']: '' @ title p @ '' - '') + 500) \<and>
     (\<forall>c. length (comment_line c) \<le> length (''COMMENT ['' @ comment_id c @ '']: '') + 500) \<and>
     ((\<forall>c \<in> set (comments ud). length (body c) \<le> 10) \<longrightarrow> cs = [])"
proof -
  let ?ps = "map post_line (filter (\<lambda>p. title p \<noteq> []) (take 50 (posts ud)))"
  let ?cs = "map comment_line (filter (\<lambda>c. 10 < length (body c)) (take 50 (comments ud)))"
  have lp: "length ?ps \<le> min (length (posts ud)) 50"
  proof -
    have "length ?ps \<le> length (take 50 (posts ud))"
      unfolding length_map by (rule length_filter_le)
    then show ?thesis by simp
  qed
  have lc: "length ?cs \<le> min (length (comments ud)) 50"
  proof -
    have "length ?cs \<le> length (take 50 (comments ud))"
      unfolding length_map by (rule length_filter_le)
    then show ?thesis by simp
  qed
  have short: "(\<forall>c \<in> set (comments ud). length (body c) \<le> 10) \<longrightarrow> ?cs = []"
  proof
    assume a: "\<forall>c \<in> set (comments ud). length (body c) \<le> 10"
    have "\<forall>c \<in> set (take 50 (comments ud)). \<not> 10 < length (body c)"
    proof
      fix c assume "c \<in> set (take 50 (comments ud))"
      then have "c \<in> set (comments ud)" by (rule in_set_takeD)
      then show "\<not> 10 < length (body c)" using a by auto
    qed
    then show "?cs = []" by (simp add: filter_empty_conv)
  qed
  have bp: "\<forall>p. length (post_line p) \<le> length (''POST ['' @ post_id p @ '']: '' @ title p @ '' - '') + 500"
    by (simp add: post_line_def)
  have bc: "\<forall>c. length (comment_line c) \<le> length (''COMMENT ['' @ comment_id c @ '']: '') + 500"
    by (simp add: comment_line_def)
  have pc: "prepare_content ud = join [CHR 0x0A, CHR 0x0A] (?ps @ ?cs)"
    by (simp add: prepare_content_def content_entries_eq)
  show ?thesis
    using content_entries_eq[of ud] pc lp lc short bp bc by blast
qed

theorem content_entries_bounds_witness:
  "length (posts ud_mixed) = 2 \<and> length (comments ud_mixed) = 2 \<and>
   content_entries ud_mixed =
     [''POST [p1]: First post - Hello there'', ''POST [p2]: A link''] @
     [''COMMENT [c2]: I think this is right''] \<and>
   length [''POST [p1]: First post - Hello there'', ''POST [p2]: A link''] \<le> min (2::nat) 50 \<and>
   length [''COMMENT [c2]: I think this is right''] \<le> min (2::nat) 50"
proof -
  from content_entries_bounds[of ud_mixed] obtain ps cs where
    e: "content_entries ud_mixed = ps @ cs"
    and p: "ps = map post_line (filter (\<lambda>p. title p \<noteq> []) (take 50 (posts ud_mixed)))"
    and c: "cs = map comment_line (filter (\<lambda>c. 10 < length (body c)) (take 50 (comments ud_mixed)))"
    and lp: "length ps \<le> min (length (posts ud_mixed)) 50"
    and lc: "length cs \<le> min (length (comments ud_mixed)) 50"
    by blast
  have p': "ps = [''POST [p1]: First post - Hello there'', ''POST [p2]: A link'']"
    unfolding p by (simp add: ud_mixed_def post_line_def)
  have c': "cs = [''COMMENT [c2]: I think this is right'']"
    unfolding c by (simp add: ud_mixed_def comment_line_def)
  have n: "length (posts ud_mixed) = 2" "length (comments ud_mixed) = 2"
    by (simp_all add: ud_mixed_def)
  show ?thesis using e p' c' lp lc n by simp
qed

subsection \<open>The report writer\<close>












lemma os_path_join_report:
  assumes "CHR ''/'' \<notin> set name"
  shows "os_path_join ''output'' (name @ ''_digital_profile.txt'') = report_path name"
proof -
  have "\<not> startswith (name @ ''_digital_profile.txt'') ''/''"
    using assms by (cases name) (auto simp: startswith_def)
  then show ?thesis by (simp add: os_path_join_def report_path_def)
qed

lemma dirname_report:
  assumes "CHR ''/'' \<notin> set name"
  shows "dirname (report_path name) = ''output''"
proof -
  let ?f = "name @ ''_digital_profile.txt''"
  have nf: "\<And>x. x \<in> set (rev ?f) \<Longrightarrow> x \<noteq> CHR ''/''" using assms by auto
  have "rev (report_path name) = rev ?f @ rev ''output/''"
    by (simp add: report_path_def)
  then have "dropWhile (\<lambda>c. c \<noteq> CHR ''/'') (rev (report_path name)) =
             dropWhile (\<lambda>c. c \<noteq> CHR ''/'') (rev ''output/'')"
    using dropWhile_append2[of "rev ?f" "\<lambda>c. c \<noteq> CHR ''/''" "rev ''output/''"] nf by simp
  then have "rev (dropWhile (\<lambda>c. c \<noteq> CHR ''/'') (rev (report_path name))) = ''output/''"
    by simp
  then show ?thesis by (simp add: dirname_def)
qed


lemma utf8_length_append: "utf8_length (a @ b) = utf8_length a + utf8_length b"
  by (simp add: utf8_length_def)

lemma utf8_length_suffix: "utf8_length ''_digital_profile.txt'' = 20"
  by (simp add: utf8_length_def)

lemma utf8_length_output: "utf8_length ''output'' = 6" "utf8_length ''output/'' = 7"
  by (simp_all add: utf8_length_def)

lemma components_no_slash: "CHR ''/'' \<notin> set s \<Longrightarrow> components s = [s]"
  by (induction s) auto

lemma components_prefix:
  "CHR ''/'' \<notin> set a \<Longrightarrow> components (a @ CHR ''/'' # b) = a # components b"
  by (induction a) auto

lemma components_report:
  assumes "CHR ''/'' \<notin> set name"
  shows "components (report_path name) = [''output'', name @ ''_digital_profile.txt'']"
proof -
  have "components (''output'' @ CHR ''/'' # (name @ ''_digital_profile.txt'')) =
        ''output'' # components (name @ ''_digital_profile.txt'')"
    by (rule components_prefix) simp
  moreover have "components (name @ ''_digital_profile.txt'') = [name @ ''_digital_profile.txt'']"
    by (rule components_no_slash) (use assms in simp)
  ultimately show ?thesis by (simp add: report_path_def)
qed

lemma report_too_long:
  assumes "CHR ''/'' \<notin> set name"
  shows "(PATH_MAX \<le> utf8_length (report_path name) \<or>
          (\<exists>c \<in> set (components (report_path name)). NAME_MAX < utf8_length c)) \<longleftrightarrow>
         NAME_MAX < utf8_length (name @ ''_digital_profile.txt'')"
proof -
  have "utf8_length (report_path name) = 7 + utf8_length (name @ ''_digital_profile.txt'')"
    using utf8_length_append[of "''output/''" "name @ ''_digital_profile.txt''"]
    by (simp add: report_path_def utf8_length_output)
  then show ?thesis
    by (auto simp: components_report[OF assms] utf8_length_output NAME_MAX_def PATH_MAX_def)
qed

lemma report_path_nul: "CHR 0x00 \<in> set (report_path name) \<longleftrightarrow> CHR 0x00 \<in> set name"
  by (auto simp: report_path_def)

lemma open_w_report:
  assumes "CHR ''/'' \<notin> set name"
  shows "open_w fs (report_path name) =
     (if CHR 0x00 \<in> set name then Inl (ValueError ''embedded null byte'')
      else if NAME_MAX < utf8_length (name @ ''_digital_profile.txt'')
      then Inl (OSError ''File name too long'')
      else if fs ''output'' \<noteq> Some Dir
      then (case fs ''output'' of
              Some (File old) \<Rightarrow> Inl (OSError ''Not a directory'')
            | _ \<Rightarrow> Inl (OSError ''No such file or directory''))
      else (case fs (report_path name) of
              Some Dir \<Rightarrow> Inl (OSError ''Is a directory'')
            | Some (Denied m) \<Rightarrow> Inl (OSError m)
            | _ \<Rightarrow> Inr (fs(report_path name \<mapsto> File []))))"
proof -
  have ne: "report_path name \<noteq> []" by (simp add: report_path_def)
  show ?thesis
    unfolding open_w_def report_path_nul report_too_long[OF assms] dirname_report[OF assms]
      is_dir_def
    using ne by simp
qed

lemma save_persona_frame:
  assumes "CHR ''/'' \<notin> set name"
    and "save_persona clock fs persona name = (r, fs', ev)"
  shows "(\<forall>p. r = Inr p \<longrightarrow> p = report_path name) \<and>
         (\<forall>q. q \<noteq> report_path name \<and> q \<noteq> ''output'' \<longrightarrow> fs' q = fs q)"
  using assms(2)
  by (auto simp: save_persona_def ensure_output_directory_def os_makedirs_def
      os_path_join_report[OF assms(1)] open_w_report[OF assms(1)] file_write_def Let_def
      split: if_splits sum.splits option.splits node.splits)


lemma first_match_Some:
  "first_match ps u = Some g \<Longrightarrow> \<exists>p \<in> set ps. re_search p u = Some g"
  by (induction ps) (auto split: option.splits)

lemma re_search_Some_name:
  assumes "re_search lit u = Some g"
  shows "g \<noteq> [] \<and> CHR ''/'' \<notin> set g"
proof -
  from assms have "first_group lit u g" by (simp add: re_search_Some_iff)
  then obtain i where "shape_at lit u i g" by (auto simp: first_group_def)
  then show ?thesis by (simp add: shape_at_def)
qed







text \<open>
  C9. A username returned by the identity resolver is not empty and has no slash, so
  the report path built for it is \<^verbatim>\<open>output/<username>_digital_profile.txt\<close>, a file name
  without a slash directly inside \<^verbatim>\<open>output\<close>; whatever the report writer does for such
  a username, it touches nothing but \<^verbatim>\<open>output\<close> and that path.
\<close>

theorem resolved_username_stays_in_output:
  assumes "extract_username_from_url u = Inr name"
  shows "name \<noteq> [] \<and> CHR ''/'' \<notin> set name \<and>
     os_path_join ''output'' (name @ ''_digital_profile.txt'') =
       ''output/'' @ name @ ''_digital_profile.txt'' \<and>
     dirname (os_path_join ''output'' (name @ ''_digital_profile.txt'')) = ''output'' \<and>
     CHR ''/'' \<notin> set (name @ ''_digital_profile.txt'') \<and>
     (\<forall>clock fs persona r fs' ev.
        save_persona clock fs persona name = (r, fs', ev) \<longrightarrow>
        (\<forall>p. r = Inr p \<longrightarrow> p = ''output/'' @ name @ ''_digital_profile.txt'') \<and>
        (\<forall>q. q \<noteq> ''output/'' @ name @ ''_digital_profile.txt'' \<and> q \<noteq> ''output'' \<longrightarrow>
             fs' q = fs q))"
proof -
  from assms have "first_match patterns u = Some name"
    by (simp add: extract_username_from_url_def split: option.splits)
  then obtain lit where "re_search lit u = Some name"
    using first_match_Some by blast
  then have n: "name \<noteq> []" and s: "CHR ''/'' \<notin> set name"
    using re_search_Some_name by blast+
  have j: "os_path_join ''output'' (name @ ''_digital_profile.txt'') =
       ''output/'' @ name @ ''_digital_profile.txt''"
    using os_path_join_report[OF s] by (simp add: report_path_def)
  have d: "dirname (os_path_join ''output'' (name @ ''_digital_profile.txt'')) = ''output''"
    using dirname_report[OF s] os_path_join_report[OF s] by simp
  have f: "CHR ''/'' \<notin> set (name @ ''_digital_profile.txt'')" using s by simp
  have w: "\<forall>clock fs persona r fs' ev.
        save_persona clock fs persona name = (r, fs', ev) \<longrightarrow>
        (\<forall>p. r = Inr p \<longrightarrow> p = ''output/'' @ name @ ''_digital_profile.txt'') \<and>
        (\<forall>q. q \<noteq> ''output/'' @ name @ ''_digital_profile.txt'' \<and> q \<noteq> ''output'' \<longrightarrow>
             fs' q = fs q)"
    using save_persona_frame[OF s] unfolding report_path_def by blast
  show ?thesis using n s j d f w by (intro conjI)
qed

theorem resolved_username_stays_in_output_witness:
  "extract_username_from_url ''https://www.reddit.com/user/alice/'' = Inr ''alice'' \<and>
   ''alice'' \<noteq> [] \<and> CHR ''/'' \<notin> set ''alice'' \<and>
   os_path_join ''output'' (''alice'' @ ''_digital_profile.txt'') =
     ''output/alice_digital_profile.txt'' \<and>
   dirname (os_path_join ''output'' (''alice'' @ ''_digital_profile.txt'')) = ''output''"
proof -
  have e: "extract_username_from_url ''https://www.reddit.com/user/alice/'' = Inr ''alice''"
    by (simp add: extract_username_from_url_def patterns_def match_here_def startswith_def)
  note r = resolved_username_stays_in_output[OF e]
  have a: "''alice'' \<noteq> []" using r by (elim conjE)
  have b: "CHR ''/'' \<notin> set ''alice''" using r by (elim conjE)
  have c: "os_path_join ''output'' (''alice'' @ ''_digital_profile.txt'') =
     ''output/'' @ ''alice'' @ ''_digital_profile.txt''" using r by (elim conjE)
  have d: "dirname (os_path_join ''output'' (''alice'' @ ''_digital_profile.txt'')) = ''output''"
    using r by (elim conjE)
  have c': "os_path_join ''output'' (''alice'' @ ''_digital_profile.txt'') =
     ''output/alice_digital_profile.txt''" using c by simp
  show ?thesis using e a b c' d by (intro conjI)
qed

subsection \<open>The shells\<close>

lemma and_then_Inr:
  "and_then m f fs = (Inr y, fs', ev) \<longleftrightarrow>
     (\<exists>x fs1 ev1 ev2. m fs = (Inr x, fs1, ev1) \<and> f x fs1 = (Inr y, fs', ev2) \<and> ev = ev1 @ ev2)"
  by (auto simp: and_then_def split: sum.splits prod.splits)

lemma and_then_Inl:
  "and_then m f fs = (Inl e, fs', ev) \<longleftrightarrow>
     (m fs = (Inl e, fs', ev) \<or>
      (\<exists>x fs1 ev1 ev2. m fs = (Inr x, fs1, ev1) \<and> f x fs1 = (Inl e, fs', ev2) \<and> ev = ev1 @ ev2))"
  by (auto simp: and_then_def split: sum.splits prod.splits)

lemma emit_eq: "emit evs fs = (r, fs', ev) \<longleftrightarrow> r = Inr () \<and> fs' = fs \<and> ev = evs"
  by (auto simp: emit_def)

lemma call_eq: "call c fs = (r, fs', ev) \<longleftrightarrow> c = (r, ev) \<and> fs' = fs"
  by (cases c) (auto simp: call_def)

lemma RedditScraper_eq:
  "RedditScraper w i s ua = (r, ev) \<longleftrightarrow>
     ev = [RedditClient i s ua] \<and>
     r = (case praw_Reddit w i s ua of Inl m \<Rightarrow> Inl (LibraryError m) | Inr api \<Rightarrow> Inr api)"
  by (auto simp: RedditScraper_def split: sum.splits)

lemma PersonaGenerator_eq:
  "PersonaGenerator l k = (r, ev) \<longleftrightarrow>
     ev = [GroqClient k] \<and>
     r = (case Groq l k of Some m \<Rightarrow> Inl (LibraryError m)
          | None \<Rightarrow> Inr \<lparr>client_key = k, generator_model = ''llama3-70b-8192''\<rparr>)"
  by (auto simp: PersonaGenerator_def split: option.splits)

lemma chat_test_eq:
  "chat_test l m = (r, ev) \<longleftrightarrow>
     ev = [ChatCompletion (test_request m)] \<and>
     r = (case chat_completions_create l (test_request m) of
            Inl msg \<Rightarrow> Inl (LibraryError msg) | Inr t \<Rightarrow> Inr t)"
  by (auto simp: chat_test_def split: sum.splits)

lemma generate_persona_eq:
  "generate_persona l g ud = (r, ev) \<longleftrightarrow>
     ev = [ChatCompletion (persona_request g ud)] \<and>
     r = (case chat_completions_create l (persona_request g ud) of
            Inl msg \<Rightarrow> Inl (Exception (''Error generating persona: '' @ msg)) | Inr t \<Rightarrow> Inr t)"
  by (auto simp: generate_persona_def split: sum.splits)

lemma scrape_user_data_events:
  "scrape_user_data api name limit = (r, ev) \<Longrightarrow>
     filter is_llm_call ev = [] \<and> filter is_success ev = [] \<and>
     (case r of Inr _ \<Rightarrow> filter is_fetch ev = [ApiFetchPosts name limit, ApiFetchComments name limit]
              | Inl _ \<Rightarrow> filter is_fetch ev = [])"
  by (cases "submissions_new api name limit"; cases "comments_new api name limit")
     (auto simp: scrape_user_data_def split: lookup.splits bool.splits option.splits)

lemma save_persona_events:
  "save_persona clock fs persona name = (r, fs', ev) \<Longrightarrow>
     filter is_llm_call ev = [] \<and> filter is_success ev = [] \<and> filter is_fetch ev = []"
  by (auto simp: save_persona_def ensure_output_directory_def Let_def
      split: sum.splits if_splits)



lemma emit_thenE:
  assumes "and_then (emit evs) f fs = (Inr y, fs', ev)"
  obtains ev2 where "f () fs = (Inr y, fs', ev2)" "ev = evs @ ev2"
  using assms by (auto simp: and_then_Inr emit_eq)

lemma call_thenE:
  assumes "and_then (call c) f fs = (Inr y, fs', ev)"
  obtains x ev1 ev2 where "c = (Inr x, ev1)" "f x fs = (Inr y, fs', ev2)" "ev = ev1 @ ev2"
  using assms by (auto simp: and_then_Inr call_eq)

lemma step_thenE:
  assumes "and_then m f fs = (Inr y, fs', ev)"
  obtains x fs1 ev1 ev2 where "m fs = (Inr x, fs1, ev1)" "f x fs1 = (Inr y, fs', ev2)" "ev = ev1 @ ev2"
  using assms by (auto simp: and_then_Inr)


lemma cli_try_InrE:
  assumes "cli_try w a fs = (Inr u, fs', ev)"
  obtains api name ud evs t persona path evf where
    "praw_Reddit w (REDDIT_CLIENT_ID w) (REDDIT_CLIENT_SECRET w) ''DigitalPersonaAnalyzer/2.0'' = Inr api"
    "extract_username_from_url (arg_url a) = Inr name"
    "scrape_user_data api name (arg_depth a) = (Inr ud, evs)"
    "Groq (llm w) (GROQ_API_KEY w) = None"
    "chat_completions_create (llm w) (test_request (arg_model a)) = Inr t"
    "chat_completions_create (llm w)
       (persona_request \<lparr>client_key = GROQ_API_KEY w, generator_model = arg_model a\<rparr> ud) = Inr persona"
    "save_persona (now w) fs persona name = (Inr path, fs', evf)"
    "filter is_llm_call ev =
       [ChatCompletion (test_request (arg_model a)),
        ChatCompletion (persona_request \<lparr>client_key = GROQ_API_KEY w, generator_model = arg_model a\<rparr> ud)]"
    "filter is_fetch ev = [ApiFetchPosts name (arg_depth a), ApiFetchComments name (arg_depth a)]"
proof -
  from assms show thesis
    unfolding cli_try_def
    apply (elim emit_thenE call_thenE)
    apply (erule step_thenE)
    apply (clarsimp simp: emit_eq RedditScraper_eq PersonaGenerator_eq chat_test_eq generate_persona_eq
        split: sum.splits option.splits)
    apply (frule scrape_user_data_events)
    apply (frule save_persona_events)
    apply (rule that, assumption+)
     apply simp_all
    done
qed


lemma streamlit_try_InrE:
  assumes "streamlit_try w ui fs = (Inr u, fs', ev)"
  obtains api name ud evs t persona path evf where
    "praw_Reddit w (REDDIT_CLIENT_ID w) (REDDIT_CLIENT_SECRET w) ''DigitalPersonaAnalyzer/2.0'' = Inr api"
    "extract_username_from_url (reddit_url ui) = Inr name"
    "scrape_user_data api name (scrape_limit ui) = (Inr ud, evs)"
    "Groq (llm w) (GROQ_API_KEY w) = None"
    "chat_completions_create (llm w) (test_request (model_choice ui)) = Inr t"
    "chat_completions_create (llm w)
       (persona_request \<lparr>client_key = GROQ_API_KEY w, generator_model = model_choice ui\<rparr> ud) = Inr persona"
    "save_persona (now w) fs persona name = (Inr path, fs', evf)"
    "filter is_llm_call ev =
       [ChatCompletion (test_request (model_choice ui)),
        ChatCompletion (persona_request \<lparr>client_key = GROQ_API_KEY w, generator_model = model_choice ui\<rparr> ud)]"
    "filter is_fetch ev = [ApiFetchPosts name (scrape_limit ui), ApiFetchComments name (scrape_limit ui)]"
proof -
  from assms show thesis
    unfolding streamlit_try_def
    apply (elim emit_thenE call_thenE)
    apply (erule step_thenE)
    apply (clarsimp simp: emit_eq RedditScraper_eq PersonaGenerator_eq chat_test_eq generate_persona_eq
        split: sum.splits option.splits)
    apply (frule scrape_user_data_events)
    apply (frule save_persona_events)
    apply (rule that, assumption+)
     apply simp_all
    done
qed

lemma call_then_InlE:
  assumes "and_then (call c) f fs = (Inl e, fs', ev)"
  obtains (raised) "c = (Inl e, ev)" "fs' = fs"
  | (later) x ev1 ev2 where "c = (Inr x, ev1)" "f x fs = (Inl e, fs', ev2)" "ev = ev1 @ ev2"
  using assms by (auto simp: and_then_Inl call_eq)

lemma step_then_InlE:
  assumes "and_then m f fs = (Inl e, fs', ev)"
  obtains (raised) "m fs = (Inl e, fs', ev)"
  | (later) x fs1 ev1 ev2 where "m fs = (Inr x, fs1, ev1)" "f x fs1 = (Inl e, fs', ev2)" "ev = ev1 @ ev2"
  using assms by (auto simp: and_then_Inl)

lemma scrape_no_success: "scrape_user_data api name limit = (r, ev) \<Longrightarrow> filter is_success ev = []"
  by (simp add: scrape_user_data_events)

lemma save_no_success: "save_persona clock fs persona name = (r, fs', ev) \<Longrightarrow> filter is_success ev = []"
  by (simp add: save_persona_events)

lemma streamlit_try_Inl_no_success:
  assumes "streamlit_try w ui fs = (Inl e, fs', ev)"
  shows "filter is_success ev = []"
  using assms unfolding streamlit_try_def
  apply (elim call_then_InlE)
        apply (simp add: RedditScraper_eq)
       apply (simp add: RedditScraper_eq)
      apply (simp add: RedditScraper_eq scrape_no_success)
     apply (simp add: RedditScraper_eq PersonaGenerator_eq scrape_no_success)
    apply (simp add: RedditScraper_eq PersonaGenerator_eq chat_test_eq scrape_no_success)
   apply (simp add: RedditScraper_eq PersonaGenerator_eq chat_test_eq generate_persona_eq scrape_no_success)
  apply (erule step_then_InlE)
   apply (simp add: RedditScraper_eq PersonaGenerator_eq chat_test_eq generate_persona_eq
      scrape_no_success save_no_success)
  apply (simp add: emit_eq)
  done

lemma command_line_interface_0:
  "command_line_interface w a fs = (0, fs', ev) \<longleftrightarrow> (\<exists>u. cli_try w a fs = (Inr u, fs', ev))"
  by (cases "cli_try w a fs" rule: prod_cases3)
     (auto simp: command_line_interface_def split: sum.splits)

lemma hints_no_success:
  "filter is_success (streamlit_hints m) = []"
  by (simp add: streamlit_hints_def)

lemma streamlit_app_success:
  assumes "streamlit_app w ui fs = (fs', ev)" and "filter is_success ev \<noteq> []"
  shows "\<exists>u. streamlit_try w ui fs = (Inr u, fs', ev)"
proof (cases "streamlit_try w ui fs" rule: prod_cases3)
  case (fields r fs1 ev1)
  show ?thesis
  proof (cases r)
    case (Inl e)
    then have "filter is_success ev1 = []"
      using fields streamlit_try_Inl_no_success by blast
    then have "filter is_success ev = []"
      using assms(1) fields Inl
      by (auto simp: streamlit_app_def hints_no_success split: if_splits)
    with assms(2) show ?thesis by simp
  next
    case (Inr u)
    then show ?thesis
      using assms fields by (auto simp: streamlit_app_def split: if_splits)
  qed
qed

text \<open>
  C10. A successful run of either shell (exit status 0 of the command line, the success
  box of the dashboard) makes exactly two requests to the LLM endpoint, in this order:
  the connection test, a one-token request with the single user message \<^verbatim>\<open>test\<close>, and
  then the request of \<^verbatim>\<open>generate_persona\<close>.
\<close>

theorem two_llm_calls_per_successful_run:
  "(command_line_interface w a fs = (0, fs1, ev1) \<longrightarrow>
      (\<exists>ud. filter is_llm_call ev1 =
         [ChatCompletion (test_request (arg_model a)),
          ChatCompletion (persona_request
             \<lparr>client_key = GROQ_API_KEY w, generator_model = arg_model a\<rparr> ud)])) \<and>
   (streamlit_app w ui fs = (fs2, ev2) \<and> filter is_success ev2 \<noteq> [] \<longrightarrow>
      (\<exists>ud. filter is_llm_call ev2 =
         [ChatCompletion (test_request (model_choice ui)),
          ChatCompletion (persona_request
             \<lparr>client_key = GROQ_API_KEY w, generator_model = model_choice ui\<rparr> ud)])) \<and>
   req_max_tokens (test_request m) = 1 \<and>
   req_messages (test_request m) = [(''user'', Text ''test'')]"
proof (intro conjI impI)
  assume "command_line_interface w a fs = (0, fs1, ev1)"
  then obtain u where "cli_try w a fs = (Inr u, fs1, ev1)"
    by (auto simp: command_line_interface_0)
  then show "\<exists>ud. filter is_llm_call ev1 =
         [ChatCompletion (test_request (arg_model a)),
          ChatCompletion (persona_request
             \<lparr>client_key = GROQ_API_KEY w, generator_model = arg_model a\<rparr> ud)]"
    by (rule cli_try_InrE) blast
next
  assume "streamlit_app w ui fs = (fs2, ev2) \<and> filter is_success ev2 \<noteq> []"
  then obtain u where "streamlit_try w ui fs = (Inr u, fs2, ev2)"
    using streamlit_app_success by blast
  then show "\<exists>ud. filter is_llm_call ev2 =
         [ChatCompletion (test_request (model_choice ui)),
          ChatCompletion (persona_request
             \<lparr>client_key = GROQ_API_KEY w, generator_model = model_choice ui\<rparr> ud)]"
    by (rule streamlit_try_InrE) blast
qed (simp_all add: test_request_def)

lemma cli_ok_run: "fst (command_line_interface world_ok args_alice Map.empty) = 0"
  by code_simp

lemma streamlit_ok_run:
  "filter is_success (snd (streamlit_app world_ok widgets_alice Map.empty)) \<noteq> []"
  by code_simp

theorem two_llm_calls_per_successful_run_witness:
  "fst (command_line_interface world_ok args_alice Map.empty) = 0 \<and>
   length (filter is_llm_call (snd (snd (command_line_interface world_ok args_alice Map.empty)))) = 2 \<and>
   filter is_success (snd (streamlit_app world_ok widgets_alice Map.empty)) \<noteq> [] \<and>
   length (filter is_llm_call (snd (streamlit_app world_ok widgets_alice Map.empty))) = 2"
proof -
  let ?c = "command_line_interface world_ok args_alice Map.empty"
  let ?s = "streamlit_app world_ok widgets_alice Map.empty"
  have c: "?c = (0, fst (snd ?c), snd (snd ?c))"
    using cli_ok_run by (simp add: prod_eq_iff)
  have s: "?s = (fst ?s, snd ?s) \<and> filter is_success (snd ?s) \<noteq> []"
    using streamlit_ok_run by simp
  note t = two_llm_calls_per_successful_run[of world_ok args_alice Map.empty "fst (snd ?c)"
      "snd (snd ?c)" widgets_alice "fst ?s" "snd ?s" "''m''"]
  from t c obtain ud where "filter is_llm_call (snd (snd ?c)) =
         [ChatCompletion (test_request (arg_model args_alice)),
          ChatCompletion (persona_request
             \<lparr>client_key = GROQ_API_KEY world_ok, generator_model = arg_model args_alice\<rparr> ud)]"
    by blast
  then have c2: "length (filter is_llm_call (snd (snd ?c))) = 2" by simp
  from t s obtain ud where "filter is_llm_call (snd ?s) =
         [ChatCompletion (test_request (model_choice widgets_alice)),
          ChatCompletion (persona_request
             \<lparr>client_key = GROQ_API_KEY world_ok, generator_model = model_choice widgets_alice\<rparr> ud)]"
    by blast
  then have s2: "length (filter is_llm_call (snd ?s)) = 2" by simp
  show ?thesis using cli_ok_run c2 streamlit_ok_run s2 by (intro conjI)
qed

text \<open>
  C1. With no LLM key a run should fail before any post or comment is fetched. The
  dashboard checks the key first (\<open>streamlit_app_checks_llm_key\<close> below); the command line
  does not: run with \<^verbatim>\<open>GROQ_API_KEY\<close> unset and valid Reddit credentials, it looks the
  user up and fetches the posts and the comments, and fails only afterwards, when the LLM
  client is constructed.
\<close>

theorem cli_fetches_content_without_llm_key:
  "GROQ_API_KEY world_no_llm_key = None \<and>
   fst (command_line_interface world_no_llm_key args_alice Map.empty) = 1 \<and>
   snd (snd (command_line_interface world_no_llm_key args_alice Map.empty)) =
     [Print ''Digital Persona Analyzer v2.0'',
      Print ''========================================'',
      Print ''Initializing Reddit data collector...'',
      RedditClient (Some ''client-id'') (Some ''client-secret'') ''DigitalPersonaAnalyzer/2.0'',
      Print ''Extracting user identity...'',
      Print ''Target identified: u/alice'',
      Print ''Collecting digital footprint...'',
      ApiUserLookup ''alice'',
      ApiFetchPosts ''alice'' 100,
      ApiFetchComments ''alice'' 100,
      Print ''Collected 3 posts and 0 comments'',
      Print ''Performing AI analysis with llama3-70b-8192...'',
      GroqClient None,
      Print ''Analysis failed: The api_key client option must be set either by passing api_key to the client or by setting the GROQ_API_KEY environment variable'',
      Print ''Invalid Groq API credentials. Please verify your configuration.'']"
  by code_simp

lemma streamlit_app_checks_llm_key:
  "\<not> truthy (GROQ_API_KEY w) \<Longrightarrow> filter is_fetch (snd (streamlit_app w ui fs)) = []"
  by (simp add: streamlit_app_def)

text \<open>
  C3. The command line run with \<^verbatim>\<open>--output results\<close> succeeds and writes the profile to
  \<^verbatim>\<open>output/alice_digital_profile.txt\<close>; nothing is created under \<^verbatim>\<open>results\<close>. The
  flag is parsed and never read (\<open>command_line_interface_ignores_output\<close> below).
\<close>

theorem cli_writes_to_output_whatever_the_flag:
  "arg_output args_results = ''results'' \<and>
   fst (command_line_interface world_ok args_results Map.empty) = 0 \<and>
   fst (snd (command_line_interface world_ok args_results Map.empty))
     ''output/alice_digital_profile.txt'' =
     Some (File (''Reddit Username: alice'' @ [CHR 0x0A, CHR 0x0A] @
                 ''Profile Generated: 2025-07-04 09:05:30'')) \<and>
   fst (snd (command_line_interface world_ok args_results Map.empty)) ''output'' = Some Dir \<and>
   fst (snd (command_line_interface world_ok args_results Map.empty)) ''results'' = None \<and>
   fst (snd (command_line_interface world_ok args_results Map.empty))
     ''results/alice_digital_profile.txt'' = None"
  by code_simp

lemma cli_try_ignores_output: "cli_try w (a\<lparr>arg_output := d\<rparr>) = cli_try w a"
  by (simp add: cli_try_def)

lemma command_line_interface_ignores_output:
  "command_line_interface w (a\<lparr>arg_output := d\<rparr>) fs = command_line_interface w a fs"
  by (simp add: command_line_interface_def cli_try_ignores_output)

lemma extract_username_from_url_Nil:
  "extract_username_from_url [] = Inl (ValueError ''Invalid Reddit URL format: '')"
  by (simp add: extract_username_from_url_def patterns_def match_here_def startswith_def)

lemma cli_reaches_synthesizer:
  assumes "praw_Reddit w (REDDIT_CLIENT_ID w) (REDDIT_CLIENT_SECRET w) ''DigitalPersonaAnalyzer/2.0'' = Inr api"
    and "extract_username_from_url (arg_url a) = Inr name"
    and "scrape_user_data api name (arg_depth a) = (Inr ud, evs)"
    and "Groq (llm w) (GROQ_API_KEY w) = None"
    and "chat_completions_create (llm w) (test_request (arg_model a)) = Inr t"
  shows "ChatCompletion (persona_request \<lparr>client_key = GROQ_API_KEY w, generator_model = arg_model a\<rparr> ud)
           \<in> set (snd (snd (command_line_interface w a fs)))"
  using assms
  by (simp add: command_line_interface_def cli_try_def and_then_def emit_def call_def
      RedditScraper_def PersonaGenerator_def chat_test_def generate_persona_def
      split: sum.splits prod.splits)

lemma streamlit_reaches_synthesizer:
  assumes "button ui" and "truthy (REDDIT_CLIENT_ID w)" and "truthy (REDDIT_CLIENT_SECRET w)"
    and "truthy (GROQ_API_KEY w)"
    and "praw_Reddit w (REDDIT_CLIENT_ID w) (REDDIT_CLIENT_SECRET w) ''DigitalPersonaAnalyzer/2.0'' = Inr api"
    and "extract_username_from_url (reddit_url ui) = Inr name"
    and "scrape_user_data api name (scrape_limit ui) = (Inr ud, evs)"
    and "Groq (llm w) (GROQ_API_KEY w) = None"
    and "chat_completions_create (llm w) (test_request (model_choice ui)) = Inr t"
  shows "ChatCompletion (persona_request \<lparr>client_key = GROQ_API_KEY w, generator_model = model_choice ui\<rparr> ud)
           \<in> set (snd (streamlit_app w ui fs))"
proof -
  have "reddit_url ui \<noteq> []"
    using assms(6) extract_username_from_url_Nil by auto
  then show ?thesis
    using assms
    by (simp add: streamlit_app_def streamlit_try_def and_then_def emit_def call_def
        RedditScraper_def PersonaGenerator_def chat_test_def generate_persona_def
        split: sum.splits prod.splits)
qed


text \<open>
  C2, as stated, fails: the posts fetch succeeds and the comments fetch fails, yet the
  post sequence is empty (the user has no posts), and the comment sequence holds the 100
  comments yielded before the failure, with \<^verbatim>\<open>total_comments\<close> 100.
\<close>

theorem comments_failure_counterexample:
  "submissions_new api_partial ''alice'' 500 = Listing [] None \<and>
   comments_new api_partial ''alice'' 500 =
     Listing (replicate 100 comment_c1) (Some ''received 503 HTTP response'') \<and>
   scrape_user_data api_partial ''alice'' 500 =
     (Inr \<lparr>username = ''alice'', posts = [],
           comments = replicate 100 (make_comment comment_c1),
           total_posts = 0, total_comments = 100\<rparr>,
      [ApiUserLookup ''alice'', ApiFetchPosts ''alice'' 500, ApiFetchComments ''alice'' 500,
       Print ''Error scraping comments: received 503 HTTP response''])"
proof -
  have a: "submissions_new api_partial ''alice'' 500 = Listing [] None"
    by (simp add: api_partial_def)
  have b: "comments_new api_partial ''alice'' 500 =
     Listing (replicate 100 comment_c1) (Some ''received 503 HTTP response'')"
    by (simp add: api_partial_def)
  have c: "redditor_id api_partial ''alice'' = HasId \<or> redditor_id api_partial ''alice'' = NoIdAttr True"
    by (simp add: api_partial_def)
  show ?thesis using a b scrape_user_data_found[OF c a b] by simp
qed

text \<open>
  C2, amended. When the user is found, the posts fetch succeeds and the comments fetch
  fails, the collector returns a result instead of raising: the post sequence is what the
  posts fetch yielded (possibly empty), the comment sequence is what the comments fetch
  yielded before it failed (empty, with \<^verbatim>\<open>total_comments\<close> 0, when it failed before its
  first item), \<^verbatim>\<open>total_comments\<close> is its length, and the failure is printed as the line
  \<^verbatim>\<open>Error scraping comments: ...\<close>. Either shell then goes on and, when the LLM client
  is constructed and the connection test succeeds, sends the synthesizer's request for
  this result.
\<close>

theorem comments_failure_is_not_fatal:
  assumes "redditor_id api name = HasId \<or> redditor_id api name = NoIdAttr True"
    and "submissions_new api name limit = Listing xs None"
    and "comments_new api name limit = Listing ys (Some m)"
  shows "\<exists>ud.
     scrape_user_data api name limit =
       (Inr ud, [ApiUserLookup name, ApiFetchPosts name limit, ApiFetchComments name limit,
                 Print (''Error scraping comments: '' @ m)]) \<and>
     posts ud = map make_post xs \<and>
     comments ud = map make_comment ys \<and>
     total_comments ud = length ys \<and>
     (ys = [] \<longrightarrow> comments ud = [] \<and> total_comments ud = 0) \<and>
     (\<forall>w a fs t.
        praw_Reddit w (REDDIT_CLIENT_ID w) (REDDIT_CLIENT_SECRET w) ''DigitalPersonaAnalyzer/2.0'' = Inr api \<and>
        extract_username_from_url (arg_url a) = Inr name \<and> arg_depth a = limit \<and>
        Groq (llm w) (GROQ_API_KEY w) = None \<and>
        chat_completions_create (llm w) (test_request (arg_model a)) = Inr t \<longrightarrow>
        ChatCompletion (persona_request
            \<lparr>client_key = GROQ_API_KEY w, generator_model = arg_model a\<rparr> ud)
          \<in> set (snd (snd (command_line_interface w a fs)))) \<and>
     (\<forall>w ui fs t.
        button ui \<and> truthy (REDDIT_CLIENT_ID w) \<and> truthy (REDDIT_CLIENT_SECRET w) \<and>
        truthy (GROQ_API_KEY w) \<and>
        praw_Reddit w (REDDIT_CLIENT_ID w) (REDDIT_CLIENT_SECRET w) ''DigitalPersonaAnalyzer/2.0'' = Inr api \<and>
        extract_username_from_url (reddit_url ui) = Inr name \<and> scrape_limit ui = limit \<and>
        Groq (llm w) (GROQ_API_KEY w) = None \<and>
        chat_completions_create (llm w) (test_request (model_choice ui)) = Inr t \<longrightarrow>
        ChatCompletion (persona_request
            \<lparr>client_key = GROQ_API_KEY w, generator_model = model_choice ui\<rparr> ud)
          \<in> set (snd (streamlit_app w ui fs)))"
proof -
  let ?ud = "\<lparr>username = name, posts = map make_post xs, comments = map make_comment ys,
           total_posts = length xs, total_comments = length ys\<rparr>"
  let ?ev = "[ApiUserLookup name, ApiFetchPosts name limit, ApiFetchComments name limit,
                 Print (''Error scraping comments: '' @ m)]"
  have run: "scrape_user_data api name limit = (Inr ?ud, ?ev)"
    using scrape_user_data_found[OF assms] by simp
  have cli: "ChatCompletion (persona_request
            \<lparr>client_key = GROQ_API_KEY w, generator_model = arg_model a\<rparr> ?ud)
          \<in> set (snd (snd (command_line_interface w a fs)))"
    if "praw_Reddit w (REDDIT_CLIENT_ID w) (REDDIT_CLIENT_SECRET w) ''DigitalPersonaAnalyzer/2.0'' = Inr api \<and>
        extract_username_from_url (arg_url a) = Inr name \<and> arg_depth a = limit \<and>
        Groq (llm w) (GROQ_API_KEY w) = None \<and>
        chat_completions_create (llm w) (test_request (arg_model a)) = Inr t"
    for w a fs t
  proof -
    have "scrape_user_data api name (arg_depth a) = (Inr ?ud, ?ev)" using run that by simp
    then show ?thesis using that cli_reaches_synthesizer by blast
  qed
  have st: "ChatCompletion (persona_request
            \<lparr>client_key = GROQ_API_KEY w, generator_model = model_choice ui\<rparr> ?ud)
          \<in> set (snd (streamlit_app w ui fs))"
    if "button ui \<and> truthy (REDDIT_CLIENT_ID w) \<and> truthy (REDDIT_CLIENT_SECRET w) \<and>
        truthy (GROQ_API_KEY w) \<and>
        praw_Reddit w (REDDIT_CLIENT_ID w) (REDDIT_CLIENT_SECRET w) ''DigitalPersonaAnalyzer/2.0'' = Inr api \<and>
        extract_username_from_url (reddit_url ui) = Inr name \<and> scrape_limit ui = limit \<and>
        Groq (llm w) (GROQ_API_KEY w) = None \<and>
        chat_completions_create (llm w) (test_request (model_choice ui)) = Inr t"
    for w ui fs t
  proof -
    have "scrape_user_data api name (scrape_limit ui) = (Inr ?ud, ?ev)" using run that by simp
    then show ?thesis using that streamlit_reaches_synthesizer by blast
  qed
  show ?thesis
  proof (rule exI[where x = ?ud], intro conjI)
    show "scrape_user_data api name limit = (Inr ?ud, ?ev)" by (rule run)
    show "\<forall>w a fs t.
        praw_Reddit w (REDDIT_CLIENT_ID w) (REDDIT_CLIENT_SECRET w) ''DigitalPersonaAnalyzer/2.0'' = Inr api \<and>
        extract_username_from_url (arg_url a) = Inr name \<and> arg_depth a = limit \<and>
        Groq (llm w) (GROQ_API_KEY w) = None \<and>
        chat_completions_create (llm w) (test_request (arg_model a)) = Inr t \<longrightarrow>
        ChatCompletion (persona_request
            \<lparr>client_key = GROQ_API_KEY w, generator_model = arg_model a\<rparr> ?ud)
          \<in> set (snd (snd (command_line_interface w a fs)))"
      using cli by blast
    show "\<forall>w ui fs t.
        button ui \<and> truthy (REDDIT_CLIENT_ID w) \<and> truthy (REDDIT_CLIENT_SECRET w) \<and>
        truthy (GROQ_API_KEY w) \<and>
        praw_Reddit w (REDDIT_CLIENT_ID w) (REDDIT_CLIENT_SECRET w) ''DigitalPersonaAnalyzer/2.0'' = Inr api \<and>
        extract_username_from_url (reddit_url ui) = Inr name \<and> scrape_limit ui = limit \<and>
        Groq (llm w) (GROQ_API_KEY w) = None \<and>
        chat_completions_create (llm w) (test_request (model_choice ui)) = Inr t \<longrightarrow>
        ChatCompletion (persona_request
            \<lparr>client_key = GROQ_API_KEY w, generator_model = model_choice ui\<rparr> ?ud)
          \<in> set (snd (streamlit_app w ui fs))"
      using st by blast
  qed simp_all
qed


lemma extract_alice:
  "extract_username_from_url ''https://reddit.com/user/alice'' = Inr ''alice''"
  by (simp add: extract_username_from_url_def patterns_def match_here_def startswith_def)

theorem comments_failure_is_not_fatal_witness:
  "redditor_id api_partial ''alice'' = HasId \<and>
   submissions_new api_partial ''alice'' 500 = Listing [] None \<and>
   comments_new api_partial ''alice'' 500 =
     Listing (replicate 100 comment_c1) (Some ''received 503 HTTP response'') \<and>
   fst (scrape_user_data api_partial ''alice'' 500) =
     Inr \<lparr>username = ''alice'', posts = [],
          comments = replicate 100 (make_comment comment_c1),
          total_posts = 0, total_comments = 100\<rparr> \<and>
   ChatCompletion (persona_request
       \<lparr>client_key = Some ''gsk-key'', generator_model = ''llama3-70b-8192''\<rparr>
       \<lparr>username = ''alice'', posts = [],
        comments = replicate 100 (make_comment comment_c1),
        total_posts = 0, total_comments = 100\<rparr>)
     \<in> set (snd (streamlit_app world_partial widgets_alice Map.empty))"
proof -
  let ?ud = "\<lparr>username = ''alice'', posts = [],
        comments = replicate 100 (make_comment comment_c1),
        total_posts = 0, total_comments = 100\<rparr>"
  have a: "submissions_new api_partial ''alice'' 500 = Listing [] None"
    by (simp add: api_partial_def)
  have b: "comments_new api_partial ''alice'' 500 =
     Listing (replicate 100 comment_c1) (Some ''received 503 HTTP response'')"
    by (simp add: api_partial_def)
  have c0: "redditor_id api_partial ''alice'' = HasId" by (simp add: api_partial_def)
  then have c: "redditor_id api_partial ''alice'' = HasId \<or> redditor_id api_partial ''alice'' = NoIdAttr True"
    by simp
  from comments_failure_is_not_fatal[OF c a b] obtain ud where
    run: "scrape_user_data api_partial ''alice'' 500 =
       (Inr ud, [ApiUserLookup ''alice'', ApiFetchPosts ''alice'' 500, ApiFetchComments ''alice'' 500,
                 Print (''Error scraping comments: '' @ ''received 503 HTTP response'')])"
    and shell: "\<forall>w ui fs t.
        button ui \<and> truthy (REDDIT_CLIENT_ID w) \<and> truthy (REDDIT_CLIENT_SECRET w) \<and>
        truthy (GROQ_API_KEY w) \<and>
        praw_Reddit w (REDDIT_CLIENT_ID w) (REDDIT_CLIENT_SECRET w) ''DigitalPersonaAnalyzer/2.0'' = Inr api_partial \<and>
        extract_username_from_url (reddit_url ui) = Inr ''alice'' \<and> scrape_limit ui = 500 \<and>
        Groq (llm w) (GROQ_API_KEY w) = None \<and>
        chat_completions_create (llm w) (test_request (model_choice ui)) = Inr t \<longrightarrow>
        ChatCompletion (persona_request
            \<lparr>client_key = GROQ_API_KEY w, generator_model = model_choice ui\<rparr> ud)
          \<in> set (snd (streamlit_app w ui fs))"
    by blast
  have ud: "ud = ?ud" using run scrape_user_data_found[OF c a b] by simp
  have hyp: "button widgets_alice \<and> truthy (REDDIT_CLIENT_ID world_partial) \<and>
        truthy (REDDIT_CLIENT_SECRET world_partial) \<and> truthy (GROQ_API_KEY world_partial) \<and>
        praw_Reddit world_partial (REDDIT_CLIENT_ID world_partial) (REDDIT_CLIENT_SECRET world_partial)
          ''DigitalPersonaAnalyzer/2.0'' = Inr api_partial \<and>
        extract_username_from_url (reddit_url widgets_alice) = Inr ''alice'' \<and>
        scrape_limit widgets_alice = 500 \<and>
        Groq (llm world_partial) (GROQ_API_KEY world_partial) = None \<and>
        chat_completions_create (llm world_partial) (test_request (model_choice widgets_alice)) = Inr ''ok''"
    by (simp add: world_partial_def world_ok_def widgets_alice_def llm_ok_def test_request_def
        extract_alice)
  have key: "GROQ_API_KEY world_partial = Some ''gsk-key''"
    "model_choice widgets_alice = ''llama3-70b-8192''"
    by (simp_all add: world_partial_def world_ok_def widgets_alice_def)
  have reach: "ChatCompletion (persona_request
            \<lparr>client_key = GROQ_API_KEY world_partial, generator_model = model_choice widgets_alice\<rparr> ud)
          \<in> set (snd (streamlit_app world_partial widgets_alice Map.empty))"
    using shell[rule_format, OF hyp] .
  have r1: "fst (scrape_user_data api_partial ''alice'' 500) = Inr ?ud" using run ud by simp
  have r2: "ChatCompletion (persona_request
       \<lparr>client_key = Some ''gsk-key'', generator_model = ''llama3-70b-8192''\<rparr> ?ud)
     \<in> set (snd (streamlit_app world_partial widgets_alice Map.empty))"
    using reach ud key by simp
  show ?thesis using c0 a b r1 r2 by (intro conjI)
qed

end
